theory Spec2Isabelle
  imports Main "HOL-Library.Code_Target_Numeral"
begin

section \<open>JavaScript values\<close>

text \<open>
  The server (\<^verbatim>\<open>mcp-server-aws.js\<close>) reads one JSON document per line, and every value it
  handles is JSON data or \<^verbatim>\<open>undefined\<close>. A value is therefore a \<open>json option\<close>, \<open>None\<close>
  standing for \<^verbatim>\<open>undefined\<close>. A number is a double with an integer value, given by that
  value (fractions are outside the model); strings are lists of characters. An object is
  the list of its own properties, in the order of the source or of the document.
\<close>

datatype json =
    JNull
  | JBool bool
  | JNum int
  | JStr string
  | JArr "json list"
  | JObj "(string \<times> json) list"

type_synonym jsval = "json option"

text \<open>What the program reads of a thrown value is its \<^verbatim>\<open>message\<close>.\<close>

datatype js_error =
    SyntaxError string
  | TypeError string
  | Error string

fun message :: "js_error \<Rightarrow> string" where
  "message (SyntaxError m) = m"
| "message (TypeError m) = m"
| "message (Error m) = m"

text \<open>Truthiness, as \<^verbatim>\<open>if (v)\<close>, \<^verbatim>\<open>!v\<close> and \<^verbatim>\<open>v || d\<close> test it.\<close>

fun truthy :: "jsval \<Rightarrow> bool" where
  "truthy None = False"
| "truthy (Some JNull) = False"
| "truthy (Some (JBool b)) = b"
| "truthy (Some (JNum n)) = (n \<noteq> 0)"
| "truthy (Some (JStr s)) = (s \<noteq> [])"
| "truthy (Some (JArr xs)) = True"
| "truthy (Some (JObj kvs)) = True"

text \<open>\<^verbatim>\<open>v || d\<close> with a default \<open>d\<close> that is defined.\<close>

fun or_else :: "jsval \<Rightarrow> json \<Rightarrow> json" where
  "or_else None d = d"
| "or_else (Some v) d = (if truthy (Some v) then v else d)"

definition quoted :: "string \<Rightarrow> string" where
  "quoted s = CHR 0x27 # s @ [CHR 0x27]"

definition cannot_read :: "string \<Rightarrow> string \<Rightarrow> js_error" where
  "cannot_read what k =
     TypeError (''Cannot read properties of '' @ what @ '' (reading '' @ quoted k @ '')'')"

text \<open>
  Property access \<^verbatim>\<open>v.k\<close>, for the property names the program reads. Reading a property of
  \<^verbatim>\<open>undefined\<close> or \<^verbatim>\<open>null\<close> throws a TypeError (the wording is V8's); an object yields its
  own property; arrays and strings have a \<^verbatim>\<open>length\<close>; every other read is \<^verbatim>\<open>undefined\<close>.
  None of the names the program reads, \<^verbatim>\<open>length\<close> apart, is inherited from a prototype.
\<close>

fun get :: "jsval \<Rightarrow> string \<Rightarrow> js_error + jsval" where
  "get None k = Inl (cannot_read ''undefined'' k)"
| "get (Some JNull) k = Inl (cannot_read ''null'' k)"
| "get (Some (JObj kvs)) k = Inr (map_of kvs k)"
| "get (Some (JArr xs)) k = Inr (if k = ''length'' then Some (JNum (int (length xs))) else None)"
| "get (Some (JStr s)) k = Inr (if k = ''length'' then Some (JNum (int (length s))) else None)"
| "get (Some (JBool b)) k = Inr None"
| "get (Some (JNum n)) k = Inr None"

text \<open>Optional chaining \<^verbatim>\<open>v?.k\<close>: \<^verbatim>\<open>undefined\<close> when \<open>v\<close> is \<^verbatim>\<open>undefined\<close> or \<^verbatim>\<open>null\<close>.\<close>

fun opt_get :: "jsval \<Rightarrow> string \<Rightarrow> js_error + jsval" where
  "opt_get None k = Inr None"
| "opt_get (Some JNull) k = Inr None"
| "opt_get (Some v) k = get (Some v) k"

text \<open>
  An object literal as \<^verbatim>\<open>JSON.stringify\<close> renders it: a property whose value is
  \<^verbatim>\<open>undefined\<close> is left out.
\<close>

fun literal_props :: "(string \<times> jsval) list \<Rightarrow> (string \<times> json) list" where
  "literal_props [] = []"
| "literal_props ((k, None) # ps) = literal_props ps"
| "literal_props ((k, Some v) # ps) = (k, v) # literal_props ps"

definition object :: "(string \<times> jsval) list \<Rightarrow> json" where
  "object ps = JObj (literal_props ps)"

subsection \<open>Conversion to a string\<close>

fun digits :: "nat \<Rightarrow> string" where
  "digits n =
     (if n < 10 then [''0123456789'' ! n]
      else digits (n div 10) @ [''0123456789'' ! (n mod 10)])"

text \<open>
  The double nearest to a natural number: 53 bits are kept, and a tie goes to the even
  neighbour. (The numbers beyond the largest double are outside the model.)
\<close>

fun bit_length :: "nat \<Rightarrow> nat" where
  "bit_length n = (if n = 0 then 0 else Suc (bit_length (n div 2)))"

definition round_double :: "nat \<Rightarrow> nat" where
  "round_double v =
     (if bit_length v \<le> 53 then v
      else (let sh = bit_length v - 53; q = v div 2 ^ sh; r = v mod 2 ^ sh; h = 2 ^ (sh - 1)
            in (if h < r \<or> (r = h \<and> odd q) then Suc q else q) * 2 ^ sh))"

definition to_double :: "int \<Rightarrow> int" where
  "to_double i = (if i < 0 then - int (round_double (nat (- i))) else int (round_double (nat i)))"

text \<open>
  \<^verbatim>\<open>Number.prototype.toString\<close> of a double \<open>x\<close> with an integer value: the digits are those
  of the number with the fewest significant digits that is read back as \<open>x\<close> (the nearest
  one when there are two, \<open>shortest\<close>), so that \<^verbatim>\<open>2 ** 64\<close> is \<^verbatim>\<open>18446744073709552000\<close>;
  from \<^verbatim>\<open>1e21\<close> on the notation has an exponent.
\<close>

fun shortest :: "nat \<Rightarrow> nat \<Rightarrow> nat" where
  "shortest x 0 = x"
| "shortest x (Suc j) =
     (let p = 10 ^ Suc j; lo = (x div p) * p; hi = lo + p
      in if round_double lo = x \<and>
            (round_double hi \<noteq> x \<or> x - lo < hi - x \<or> (x - lo = hi - x \<and> even (x div p)))
         then lo
         else if round_double hi = x then hi
         else shortest x j)"

definition exponential :: "nat \<Rightarrow> string" where
  "exponential v =
     (let ds = digits v; sig = rev (dropWhile (\<lambda>c. c = CHR ''0'') (rev ds))
      in take 1 sig @ (if drop 1 sig = [] then [] else ''.'' @ drop 1 sig) @
         ''e+'' @ digits (length ds - 1))"

definition Number_toString :: "int \<Rightarrow> string" where
  "Number_toString i =
     (let x = nat \<bar>i\<bar>; v = shortest x (length (digits x) - 1);
          shown = (if v < 1000000000000000000000 then digits v else exponential v)
      in if i < 0 then CHR ''-'' # shown else shown)"

text \<open>
  \<^verbatim>\<open>`${v}`\<close> and the conversion of \<open>v\<close> to a property key. An array is joined with commas,
  \<^verbatim>\<open>null\<close> elements giving the empty string. A plain object is \<^verbatim>\<open>[object Object]\<close> through
  the inherited \<^verbatim>\<open>toString\<close>; an own property \<^verbatim>\<open>toString\<close> from a JSON document is never
  callable, and then the conversion throws.
\<close>

fun to_string :: "json \<Rightarrow> js_error + string"
  and join :: "json list \<Rightarrow> js_error + string" where
  "to_string JNull = Inr ''null''"
| "to_string (JBool b) = Inr (if b then ''true'' else ''false'')"
| "to_string (JNum n) = Inr (Number_toString n)"
| "to_string (JStr s) = Inr s"
| "to_string (JArr xs) = join xs"
| "to_string (JObj kvs) =
     (if ''toString'' \<in> fst ` set kvs
      then Inl (TypeError ''Cannot convert object to primitive value'')
      else Inr ''[object Object]'')"
| "join [] = Inr []"
| "join (x # xs) =
     (case (if x = JNull then Inr [] else to_string x) of
        Inl e \<Rightarrow> Inl e
      | Inr s \<Rightarrow>
          (if xs = [] then Inr s
           else (case join xs of Inl e \<Rightarrow> Inl e | Inr t \<Rightarrow> Inr (s @ '','' @ t))))"

fun template :: "jsval \<Rightarrow> js_error + string" where
  "template None = Inr ''undefined''"
| "template (Some v) = to_string v"

section \<open>The process and its environment\<close>

text \<open>
  A line of the diagnostic log: the text and, where the source interpolates
  \<^verbatim>\<open>JSON.stringify(x)\<close>, the document \<open>x\<close>. The timestamp that \<^verbatim>\<open>log\<close> puts before each
  line is left out.
\<close>

type_synonym log_line = "string \<times> jsval"

text \<open>
  The state of the process: how many times \<^verbatim>\<open>fs.appendFileSync\<close> was called, the lines of
  the log file, the documents written to standard output (each on a line of its own), and
  \<^verbatim>\<open>AWS.config.region\<close>.
\<close>

record world =
  appends :: nat
  log_file :: "log_line list"
  stdout :: "json list"
  region :: jsval

text \<open>A value handed to the SDK: a plain value, or a \<^verbatim>\<open>Date\<close> with its time value in
  milliseconds (\<open>None\<close> for an invalid date).\<close>

datatype sdk_value = Plain jsval | Date "int option"

text \<open>
  What the program takes from the platform and from AWS:
  \<^item> \<open>JSON_parse\<close>: \<^verbatim>\<open>JSON.parse\<close>, the parsed document or the SyntaxError it throws;
  \<^item> \<open>append_fault\<close>: the error with which the \<open>n\<close>-th call of \<^verbatim>\<open>fs.appendFileSync\<close> throws,
    if it does;
  \<^item> \<open>AWS_client\<close>: the error that \<^verbatim>\<open>new AWS.Service({ region })\<close> throws, if it does, for a
    service and the region;
  \<^item> \<open>aws_sdk\<close>: the outcome of \<^verbatim>\<open>client.operation(request).promise()\<close>, for an operation,
    the region of the client and the request;
  \<^item> \<open>inherited_call\<close>: the outcome of calling a member that the handler table inherits from
    \<^verbatim>\<open>Object.prototype\<close>, for its name and the argument;
  \<^item> \<open>Date_now\<close>, \<open>Date_parse\<close>, \<open>parseInt\<close>: the clock, \<^verbatim>\<open>new Date(v)\<close> and
    \<^verbatim>\<open>parseInt(s)\<close> (\<open>None\<close> for an invalid date and for \<^verbatim>\<open>NaN\<close>).
\<close>

record env =
  JSON_parse :: "string \<Rightarrow> js_error + json"
  append_fault :: "nat \<Rightarrow> string option"
  AWS_client :: "string \<Rightarrow> json \<Rightarrow> js_error option"
  aws_sdk :: "string \<Rightarrow> json \<Rightarrow> (string \<times> sdk_value) list \<Rightarrow> js_error + json"
  inherited_call :: "string \<Rightarrow> json \<Rightarrow> js_error + jsval"
  Date_now :: int
  Date_parse :: "jsval \<Rightarrow> int option"
  parseInt :: "string \<Rightarrow> int option"

text \<open>
  A computation runs from a world to a value or a thrown error, and the world it leaves.
  When it throws, the world is the one at the throw: what was written stays written.
\<close>

type_synonym 'a io = "world \<Rightarrow> (js_error + 'a) \<times> world"

definition io_return :: "'a \<Rightarrow> 'a io" where
  "io_return x w = (Inr x, w)"

definition io_throw :: "js_error \<Rightarrow> 'a io" where
  "io_throw e w = (Inl e, w)"

definition io_lift :: "js_error + 'a \<Rightarrow> 'a io" where
  "io_lift r w = (r, w)"

definition io_bind :: "'a io \<Rightarrow> ('a \<Rightarrow> 'b io) \<Rightarrow> 'b io" where
  "io_bind m f w = (case m w of (Inl e, w') \<Rightarrow> (Inl e, w') | (Inr x, w') \<Rightarrow> f x w')"

definition io_seq :: "unit io \<Rightarrow> 'b io \<Rightarrow> 'b io" where
  "io_seq m n = io_bind m (\<lambda>_. n)"

text \<open>\<^verbatim>\<open>try { m } catch (error) { h error }\<close>\<close>

definition io_catch :: "'a io \<Rightarrow> (js_error \<Rightarrow> 'a io) \<Rightarrow> 'a io" where
  "io_catch m h w = (case m w of (Inl e, w') \<Rightarrow> h e w' | (Inr x, w') \<Rightarrow> (Inr x, w'))"

subsection \<open>Logging and output\<close>

text \<open>
  \<^verbatim>\<open>log\<close> (lines 18 to 22) appends one line to the log file with \<^verbatim>\<open>fs.appendFileSync\<close> and
  does not catch what that throws. Writing to standard output (\<^verbatim>\<open>console.log\<close>) is taken
  not to throw.
\<close>

definition log :: "env \<Rightarrow> log_line \<Rightarrow> unit io" where
  "log E l w =
     (case append_fault E (appends w) of
        Some m \<Rightarrow> (Inl (Error m), w\<lparr>appends := Suc (appends w)\<rparr>)
      | None \<Rightarrow> (Inr (), w\<lparr>appends := Suc (appends w), log_file := log_file w @ [l]\<rparr>))"

definition console_log :: "json \<Rightarrow> unit io" where
  "console_log doc w = (Inr (), w\<lparr>stdout := stdout w @ [doc]\<rparr>)"

text \<open>The envelopes of \<^verbatim>\<open>sendResponse\<close> and \<^verbatim>\<open>sendErrorResponse\<close> (lines 768 to 790).\<close>

definition response :: "jsval \<Rightarrow> jsval \<Rightarrow> json" where
  "response i result =
     object [(''jsonrpc'', Some (JStr ''2.0'')), (''id'', i), (''result'', result)]"

definition error_response :: "jsval \<Rightarrow> int \<Rightarrow> string \<Rightarrow> json" where
  "error_response i code msg =
     object [(''jsonrpc'', Some (JStr ''2.0'')), (''id'', i),
       (''error'', Some (object [(''code'', Some (JNum code)), (''message'', Some (JStr msg))]))]"

definition sendResponse :: "env \<Rightarrow> jsval \<Rightarrow> jsval \<Rightarrow> unit io" where
  "sendResponse E i result =
     io_seq (log E (''[aws] [info] Sending response: '', Some (response i result)))
       (console_log (response i result))"

definition sendErrorResponse :: "env \<Rightarrow> jsval \<Rightarrow> int \<Rightarrow> string \<Rightarrow> unit io" where
  "sendErrorResponse E i code msg =
     io_seq (log E (''[aws] [error] Sending error: '', Some (error_response i code msg)))
       (console_log (error_response i code msg))"

section \<open>The tool catalog\<close>

text \<open>
  The array \<^verbatim>\<open>tools\<close> (lines 54 to 495): each entry has a name, a description and the
  schema of its parameters.
\<close>

record parameters =
  schema_type :: string
  properties :: json
  required :: json

record tool =
  name :: string
  description :: string
  parameters :: parameters

definition tools :: "tool list" where
  "tools = [
    \<lparr>name = ''aws.ec2.describeInstances'',
      description = ''List EC2 instances and their details'',
      parameters = \<lparr>schema_type = ''object'',
        properties = JObj [
          (''region'', JObj [
            (''type'', JStr ''string''),
            (''description'', JStr ''AWS region (e.g., us-west-2)'')]),
          (''filters'', JObj [
            (''type'', JStr ''array''),
            (''description'', JStr ''Optional filters to apply''),
            (''items'', JObj [
              (''type'', JStr ''object''),
              (''properties'', JObj [
                (''Name'', JObj [(''type'', JStr ''string'')]),
                (''Values'', JObj [
                  (''type'', JStr ''array''),
                  (''items'', JObj [(''type'', JStr ''string'')])])])])])],
        required = JArr []\<rparr>\<rparr>,
    \<lparr>name = ''aws.ec2.describeVpcs'',
      description = ''List VPCs and their details'',
      parameters = \<lparr>schema_type = ''object'',
        properties = JObj [
          (''region'', JObj [
            (''type'', JStr ''string''),
            (''description'', JStr ''AWS region (e.g., us-west-2)'')]),
          (''vpcIds'', JObj [
            (''type'', JStr ''array''),
            (''description'', JStr ''Optional VPC IDs to filter''),
            (''items'', JObj [(''type'', JStr ''string'')])])],
        required = JArr []\<rparr>\<rparr>,
    \<lparr>name = ''aws.ec2.describeSecurityGroups'',
      description = ''List security groups and their details'',
      parameters = \<lparr>schema_type = ''object'',
        properties = JObj [
          (''region'', JObj [
            (''type'', JStr ''string''),
            (''description'', JStr ''AWS region (e.g., us-west-2)'')]),
          (''groupIds'', JObj [
            (''type'', JStr ''array''),
            (''description'', JStr ''Optional security group IDs to filter''),
            (''items'', JObj [(''type'', JStr ''string'')])])],
        required = JArr []\<rparr>\<rparr>,
    \<lparr>name = ''aws.s3.listBuckets'',
      description = ''List all S3 buckets'',
      parameters = \<lparr>schema_type = ''object'',
        properties = JObj [
          (''region'', JObj [
            (''type'', JStr ''string''),
            (''description'', JStr ''AWS region (e.g., us-west-2)'')])],
        required = JArr []\<rparr>\<rparr>,
    \<lparr>name = ''aws.s3.listObjects'',
      description = ''List objects in an S3 bucket'',
      parameters = \<lparr>schema_type = ''object'',
        properties = JObj [
          (''region'', JObj [
            (''type'', JStr ''string''),
            (''description'', JStr ''AWS region (e.g., us-west-2)'')]),
          (''bucket'', JObj [(''type'', JStr ''string''), (''description'', JStr ''S3 bucket name'')]),
          (''prefix'', JObj [
            (''type'', JStr ''string''),
            (''description'', JStr ''Optional prefix to filter objects'')])],
        required = JArr [JStr ''bucket'']\<rparr>\<rparr>,
    \<lparr>name = ''aws.lambda.listFunctions'',
      description = ''List Lambda functions'',
      parameters = \<lparr>schema_type = ''object'',
        properties = JObj [
          (''region'', JObj [
            (''type'', JStr ''string''),
            (''description'', JStr ''AWS region (e.g., us-west-2)'')])],
        required = JArr []\<rparr>\<rparr>,
    \<lparr>name = ''aws.lambda.getFunctionConfiguration'',
      description = ''Get detailed configuration for a Lambda function'',
      parameters = \<lparr>schema_type = ''object'',
        properties = JObj [
          (''region'', JObj [
            (''type'', JStr ''string''),
            (''description'', JStr ''AWS region (e.g., us-west-2)'')]),
          (''functionName'', JObj [
            (''type'', JStr ''string''),
            (''description'', JStr ''Name or ARN of the Lambda function'')])],
        required = JArr [JStr ''functionName'']\<rparr>\<rparr>,
    \<lparr>name = ''aws.dynamodb.listTables'',
      description = ''List DynamoDB tables'',
      parameters = \<lparr>schema_type = ''object'',
        properties = JObj [
          (''region'', JObj [
            (''type'', JStr ''string''),
            (''description'', JStr ''AWS region (e.g., us-west-2)'')])],
        required = JArr []\<rparr>\<rparr>,
    \<lparr>name = ''aws.dynamodb.describeTable'',
      description = ''Get detailed information about a DynamoDB table'',
      parameters = \<lparr>schema_type = ''object'',
        properties = JObj [
          (''region'', JObj [
            (''type'', JStr ''string''),
            (''description'', JStr ''AWS region (e.g., us-west-2)'')]),
          (''tableName'', JObj [
            (''type'', JStr ''string''),
            (''description'', JStr ''Name of the DynamoDB table'')])],
        required = JArr [JStr ''tableName'']\<rparr>\<rparr>,
    \<lparr>name = ''aws.cloudwatch.getMetricStatistics'',
      description = ''Get CloudWatch metrics for a resource'',
      parameters = \<lparr>schema_type = ''object'',
        properties = JObj [
          (''region'', JObj [
            (''type'', JStr ''string''),
            (''description'', JStr ''AWS region (e.g., us-west-2)'')]),
          (''namespace'', JObj [
            (''type'', JStr ''string''),
            (''description'', JStr ''Metric namespace (e.g., AWS/EC2)'')]),
          (''metricName'', JObj [(''type'', JStr ''string''), (''description'', JStr ''Name of the metric'')]),
          (''dimensions'', JObj [
            (''type'', JStr ''array''),
            (''description'', JStr ''Dimensions for the metric''),
            (''items'', JObj [
              (''type'', JStr ''object''),
              (''properties'', JObj [
                (''Name'', JObj [(''type'', JStr ''string'')]),
                (''Value'', JObj [(''type'', JStr ''string'')])])])]),
          (''startTime'', JObj [
            (''type'', JStr ''string''),
            (''description'', JStr ''Start time for metrics (ISO format or relative time like -3h)'')]),
          (''endTime'', JObj [
            (''type'', JStr ''string''),
            (''description'', JStr ''End time for metrics (ISO format or current time by default)'')]),
          (''period'', JObj [
            (''type'', JStr ''number''),
            (''description'', JStr ''Period in seconds (60, 300, 3600, etc.)'')]),
          (''statistics'', JObj [
            (''type'', JStr ''array''),
            (''description'', JStr ''Statistics to retrieve (Average, Maximum, Minimum, SampleCount, Sum)''),
            (''items'', JObj [(''type'', JStr ''string'')])])],
        required = JArr [JStr ''namespace'', JStr ''metricName'']\<rparr>\<rparr>,
    \<lparr>name = ''aws.cloudwatch.describeAlarms'',
      description = ''List CloudWatch alarms'',
      parameters = \<lparr>schema_type = ''object'',
        properties = JObj [
          (''region'', JObj [
            (''type'', JStr ''string''),
            (''description'', JStr ''AWS region (e.g., us-west-2)'')]),
          (''alarmNames'', JObj [
            (''type'', JStr ''array''),
            (''description'', JStr ''Optional alarm names to filter''),
            (''items'', JObj [(''type'', JStr ''string'')])]),
          (''alarmTypes'', JObj [
            (''type'', JStr ''array''),
            (''description'', JStr ''Optional alarm types to filter''),
            (''items'', JObj [
              (''type'', JStr ''string''),
              (''enum'', JArr [JStr ''MetricAlarm'', JStr ''CompositeAlarm''])])]),
          (''stateValue'', JObj [
            (''type'', JStr ''string''),
            (''description'', JStr ''Optional state to filter by (OK, ALARM, INSUFFICIENT_DATA)''),
            (''enum'', JArr [JStr ''OK'', JStr ''ALARM'', JStr ''INSUFFICIENT_DATA''])])],
        required = JArr []\<rparr>\<rparr>,
    \<lparr>name = ''aws.iam.listUsers'',
      description = ''List IAM users'',
      parameters = \<lparr>schema_type = ''object'',
        properties = JObj [
          (''pathPrefix'', JObj [
            (''type'', JStr ''string''),
            (''description'', JStr ''Optional path prefix to filter users'')]),
          (''maxItems'', JObj [
            (''type'', JStr ''number''),
            (''description'', JStr ''Maximum number of items to return'')])],
        required = JArr []\<rparr>\<rparr>,
    \<lparr>name = ''aws.iam.listRoles'',
      description = ''List IAM roles'',
      parameters = \<lparr>schema_type = ''object'',
        properties = JObj [
          (''pathPrefix'', JObj [
            (''type'', JStr ''string''),
            (''description'', JStr ''Optional path prefix to filter roles'')]),
          (''maxItems'', JObj [
            (''type'', JStr ''number''),
            (''description'', JStr ''Maximum number of items to return'')])],
        required = JArr []\<rparr>\<rparr>,
    \<lparr>name = ''aws.rds.describeDBInstances'',
      description = ''List RDS database instances'',
      parameters = \<lparr>schema_type = ''object'',
        properties = JObj [
          (''region'', JObj [
            (''type'', JStr ''string''),
            (''description'', JStr ''AWS region (e.g., us-west-2)'')]),
          (''dbInstanceIdentifier'', JObj [
            (''type'', JStr ''string''),
            (''description'', JStr ''Optional database instance identifier'')])],
        required = JArr []\<rparr>\<rparr>,
    \<lparr>name = ''aws.sns.listTopics'',
      description = ''List SNS topics'',
      parameters = \<lparr>schema_type = ''object'',
        properties = JObj [
          (''region'', JObj [
            (''type'', JStr ''string''),
            (''description'', JStr ''AWS region (e.g., us-west-2)'')])],
        required = JArr []\<rparr>\<rparr>,
    \<lparr>name = ''aws.sqs.listQueues'',
      description = ''List SQS queues'',
      parameters = \<lparr>schema_type = ''object'',
        properties = JObj [
          (''region'', JObj [
            (''type'', JStr ''string''),
            (''description'', JStr ''AWS region (e.g., us-west-2)'')]),
          (''queueNamePrefix'', JObj [
            (''type'', JStr ''string''),
            (''description'', JStr ''Optional prefix to filter queue names'')])],
        required = JArr []\<rparr>\<rparr>,
    \<lparr>name = ''aws.cloudformation.listStacks'',
      description = ''List CloudFormation stacks'',
      parameters = \<lparr>schema_type = ''object'',
        properties = JObj [
          (''region'', JObj [
            (''type'', JStr ''string''),
            (''description'', JStr ''AWS region (e.g., us-west-2)'')]),
          (''stackStatusFilter'', JObj [
            (''type'', JStr ''array''),
            (''description'', JStr ''Optional status filters''),
            (''items'', JObj [(''type'', JStr ''string'')])])],
        required = JArr []\<rparr>\<rparr>,
    \<lparr>name = ''aws.route53.listHostedZones'',
      description = ''List Route53 hosted zones'',
      parameters = \<lparr>schema_type = ''object'',
        properties = JObj [
          (''maxItems'', JObj [
            (''type'', JStr ''number''),
            (''description'', JStr ''Maximum number of items to return'')])],
        required = JArr []\<rparr>\<rparr>,
    \<lparr>name = ''aws.cloudfront.listDistributions'',
      description = ''List CloudFront distributions'',
      parameters = \<lparr>schema_type = ''object'',
        properties = JObj [
          (''maxItems'', JObj [
            (''type'', JStr ''number''),
            (''description'', JStr ''Maximum number of items to return'')])],
        required = JArr []\<rparr>\<rparr>,
    \<lparr>name = ''aws.ecs.listClusters'',
      description = ''List ECS clusters'',
      parameters = \<lparr>schema_type = ''object'',
        properties = JObj [
          (''region'', JObj [
            (''type'', JStr ''string''),
            (''description'', JStr ''AWS region (e.g., us-west-2)'')])],
        required = JArr []\<rparr>\<rparr>,
    \<lparr>name = ''aws.eks.listClusters'',
      description = ''List EKS clusters'',
      parameters = \<lparr>schema_type = ''object'',
        properties = JObj [
          (''region'', JObj [
            (''type'', JStr ''string''),
            (''description'', JStr ''AWS region (e.g., us-west-2)'')])],
        required = JArr []\<rparr>\<rparr>,
    \<lparr>name = ''ping'',
      description = ''Responds with pong'',
      parameters = \<lparr>schema_type = ''object'',
        properties = JObj [],
        required = JArr []\<rparr>\<rparr>]"

section \<open>The tool handlers\<close>

text \<open>
  \<^verbatim>\<open>handleRegion\<close> (lines 498 to 504): a region given in the parameters becomes the region
  of the whole process, for this call and for the later ones.
\<close>

definition AWS_config_update_region :: "json \<Rightarrow> unit io" where
  "AWS_config_update_region r w = (Inr (), w\<lparr>region := Some r\<rparr>)"

definition AWS_config_region :: "jsval io" where
  "AWS_config_region w = (Inr (region w), w)"

definition handleRegion :: "jsval \<Rightarrow> json io" where
  "handleRegion params =
     io_bind (io_lift (if truthy params then get params ''region'' else Inr params)) (\<lambda>r.
       case r of
         Some v \<Rightarrow>
           (if truthy (Some v) then io_seq (AWS_config_update_region v) (io_return v)
            else io_bind AWS_config_region (\<lambda>c. io_return (or_else c (JStr ''us-west-2''))))
       | None \<Rightarrow> io_bind AWS_config_region (\<lambda>c. io_return (or_else c (JStr ''us-west-2''))))"

text \<open>
  \<^verbatim>\<open>parseRelativeTime\<close> (lines 507 to 527), with \<^verbatim>\<open>s.startsWith('-')\<close>, \<^verbatim>\<open>s.slice(-1)\<close>
  and \<^verbatim>\<open>s.slice(1, -1)\<close>. A time value outside the range of \<^verbatim>\<open>Date\<close> is an invalid date.
\<close>

fun startsWith_dash :: "jsval \<Rightarrow> js_error + bool" where
  "startsWith_dash None = Inl (cannot_read ''undefined'' ''startsWith'')"
| "startsWith_dash (Some JNull) = Inl (cannot_read ''null'' ''startsWith'')"
| "startsWith_dash (Some (JStr s)) = Inr (take 1 s = ''-'')"
| "startsWith_dash (Some v) = Inl (TypeError ''timeStr.startsWith is not a function'')"

definition new_Date :: "int option \<Rightarrow> sdk_value" where
  "new_Date t =
     (case t of
        None \<Rightarrow> Date None
      | Some ms \<Rightarrow> Date (if \<bar>ms\<bar> \<le> 8640000000000000 then Some ms else None))"

definition minus_scaled :: "int \<Rightarrow> int option \<Rightarrow> int \<Rightarrow> int option" where
  "minus_scaled now v unit_ms = (case v of None \<Rightarrow> None | Some n \<Rightarrow> Some (now - n * unit_ms))"

definition parseRelativeTime :: "env \<Rightarrow> jsval \<Rightarrow> js_error + sdk_value" where
  "parseRelativeTime E timeStr =
     (if \<not> truthy timeStr then Inr (Plain (Some JNull))
      else (case startsWith_dash timeStr of
              Inl e \<Rightarrow> Inl e
            | Inr False \<Rightarrow> Inr (Plain (Some JNull))
            | Inr True \<Rightarrow>
                (case timeStr of
                   Some (JStr s) \<Rightarrow>
                     (let unit = (if s = [] then [] else [last s]);
                          v = parseInt E (butlast (tl s));
                          now = Date_now E
                      in if unit = ''h'' then Inr (new_Date (minus_scaled now v (60 * 60 * 1000)))
                         else if unit = ''d'' then Inr (new_Date (minus_scaled now v (24 * 60 * 60 * 1000)))
                         else if unit = ''m'' then Inr (new_Date (minus_scaled now v (60 * 1000)))
                         else Inr (Plain (Some JNull)))
                 | _ \<Rightarrow> Inr (Plain (Some JNull)))))"

text \<open>
  A handler takes the parameter object and gives the result that the server sends, or
  throws. The handlers are \<^verbatim>\<open>async\<close>; a rejected promise is a throw at the \<^verbatim>\<open>await\<close>.
  The call of the SDK returns: a call that never settles is not modelled. Each AWS handler
  constructs its client (\<^verbatim>\<open>new AWS.S3({ region })\<close>) right after \<^verbatim>\<open>handleRegion\<close>, outside
  its \<^verbatim>\<open>try\<close>: what the constructor throws leaves the handler as it is.
\<close>

type_synonym handler = "json \<Rightarrow> jsval io"

definition new_client :: "env \<Rightarrow> string \<Rightarrow> json \<Rightarrow> unit io" where
  "new_client E service r =
     io_lift (case AWS_client E service r of Some e \<Rightarrow> Inl e | None \<Rightarrow> Inr ())"

definition ping :: handler where
  "ping params = io_return (Some (object [(''result'', Some (JStr ''pong''))]))"

text \<open>
  \<^verbatim>\<open>count + reservation.Instances.length\<close> in the \<^verbatim>\<open>reduce\<close> of line 546: the sum so far is
  a number, \<^verbatim>\<open>NaN\<close> or, once a string has been added, a string.
\<close>

datatype js_sum = SNum int | SNaN | SStr string

fun sum_text :: "js_sum \<Rightarrow> string" where
  "sum_text (SNum n) = Number_toString n"
| "sum_text SNaN = ''NaN''"
| "sum_text (SStr s) = s"

fun add_number :: "js_sum \<Rightarrow> int \<Rightarrow> string \<Rightarrow> js_sum" where
  "add_number (SNum n) m txt = SNum (to_double (n + m))"
| "add_number SNaN m txt = SNaN"
| "add_number (SStr s) m txt = SStr (s @ txt)"

fun js_plus :: "js_sum \<Rightarrow> jsval \<Rightarrow> js_error + js_sum" where
  "js_plus (SStr s) None = Inr (SStr (s @ ''undefined''))"
| "js_plus a None = Inr SNaN"
| "js_plus a (Some JNull) = Inr (add_number a 0 ''null'')"
| "js_plus a (Some (JBool b)) =
     Inr (add_number a (if b then 1 else 0) (if b then ''true'' else ''false''))"
| "js_plus a (Some (JNum m)) = Inr (add_number a m (Number_toString m))"
| "js_plus a (Some (JStr t)) = Inr (SStr (sum_text a @ t))"
| "js_plus a (Some v) =
     (case to_string v of Inl e \<Rightarrow> Inl e | Inr t \<Rightarrow> Inr (SStr (sum_text a @ t)))"

fun count_instances :: "js_sum \<Rightarrow> json list \<Rightarrow> js_error + js_sum" where
  "count_instances a [] = Inr a"
| "count_instances a (reservation # rs) =
     (case get (Some reservation) ''Instances'' of
        Inl e \<Rightarrow> Inl e
      | Inr instances \<Rightarrow>
          (case get instances ''length'' of
             Inl e \<Rightarrow> Inl e
           | Inr n \<Rightarrow> (case js_plus a n of Inl e \<Rightarrow> Inl e | Inr a' \<Rightarrow> count_instances a' rs)))"

text \<open>The sum as the response shows it: \<^verbatim>\<open>JSON.stringify\<close> writes \<^verbatim>\<open>NaN\<close> as \<^verbatim>\<open>null\<close>.\<close>

fun sum_json :: "js_sum \<Rightarrow> json" where
  "sum_json (SNum n) = JNum n"
| "sum_json SNaN = JNull"
| "sum_json (SStr s) = JStr s"

fun instanceCount :: "jsval \<Rightarrow> js_error + json" where
  "instanceCount None = Inl (cannot_read ''undefined'' ''reduce'')"
| "instanceCount (Some JNull) = Inl (cannot_read ''null'' ''reduce'')"
| "instanceCount (Some (JArr rs)) =
     (case count_instances (SNum 0) rs of Inl e \<Rightarrow> Inl e | Inr a \<Rightarrow> Inr (sum_json a))"
| "instanceCount (Some v) = Inl (TypeError ''result.Reservations.reduce is not a function'')"

definition aws_ec2_describeInstances :: "env \<Rightarrow> handler" where
  "aws_ec2_describeInstances E params =
     io_bind (handleRegion (Some params)) (\<lambda>region.
     io_seq (new_client E ''EC2'' region) (
       io_catch
         (io_bind (io_lift (get (Some params) ''filters'')) (\<lambda>f.
          io_bind (io_lift (aws_sdk E ''EC2.describeInstances'' region
                     [(''Filters'', Plain (Some (or_else f (JArr []))))])) (\<lambda>result.
          io_bind (io_lift (get (Some result) ''Reservations'')) (\<lambda>reservations.
          io_bind (io_lift (instanceCount reservations)) (\<lambda>n.
          io_return (Some (object [(''result'', Some (object
            [(''region'', Some region),
             (''reservations'', reservations),
             (''instanceCount'', Some n)]))])))))))
         (\<lambda>error. io_throw (Error (''EC2 Error: '' @ message error)))))"

definition aws_s3_listBuckets :: "env \<Rightarrow> handler" where
  "aws_s3_listBuckets E params =
     io_bind (handleRegion (Some params)) (\<lambda>region.
     io_seq (new_client E ''S3'' region) (
       io_catch
         (io_bind (io_lift (aws_sdk E ''S3.listBuckets'' region [])) (\<lambda>result.
          io_bind (io_lift (get (Some result) ''Buckets'')) (\<lambda>buckets.
          io_return (Some (object [(''result'', Some (object
            [(''region'', Some region),
             (''buckets'', buckets)]))])))))
         (\<lambda>error. io_throw (Error (''S3 Error: '' @ message error)))))"

definition aws_s3_listObjects :: "env \<Rightarrow> handler" where
  "aws_s3_listObjects E params =
     io_bind (handleRegion (Some params)) (\<lambda>region.
     io_seq (new_client E ''S3'' region) (
     io_bind (io_lift (get (Some params) ''bucket'')) (\<lambda>bucket.
       if \<not> truthy bucket then io_throw (Error ''Bucket name is required'')
       else
         io_catch
           (io_bind (io_lift (get (Some params) ''prefix'')) (\<lambda>prefix.
            io_bind (io_lift (aws_sdk E ''S3.listObjectsV2'' region
                       ((''Bucket'', Plain bucket) #
                        (if truthy prefix then [(''Prefix'', Plain prefix)]
                         else [])))) (\<lambda>result.
            io_bind (io_lift (get (Some result) ''Contents'')) (\<lambda>contents.
            io_bind (io_lift (get (Some result) ''KeyCount'')) (\<lambda>key_count.
            io_return (Some (object [(''result'', Some (object
              [(''region'', Some region),
               (''bucket'', bucket),
               (''prefix'', Some (or_else prefix (JStr []))),
               (''objects'', contents),
               (''count'', key_count)]))])))))))
           (\<lambda>error. io_throw (Error (''S3 Error: '' @ message error))))))"

definition aws_lambda_listFunctions :: "env \<Rightarrow> handler" where
  "aws_lambda_listFunctions E params =
     io_bind (handleRegion (Some params)) (\<lambda>region.
     io_seq (new_client E ''Lambda'' region) (
       io_catch
         (io_bind (io_lift (aws_sdk E ''Lambda.listFunctions'' region [])) (\<lambda>result.
          io_bind (io_lift (get (Some result) ''Functions'')) (\<lambda>functions.
          io_return (Some (object [(''result'', Some (object
            [(''region'', Some region),
             (''functions'', functions)]))])))))
         (\<lambda>error. io_throw (Error (''Lambda Error: '' @ message error)))))"

definition aws_dynamodb_listTables :: "env \<Rightarrow> handler" where
  "aws_dynamodb_listTables E params =
     io_bind (handleRegion (Some params)) (\<lambda>region.
     io_seq (new_client E ''DynamoDB'' region) (
       io_catch
         (io_bind (io_lift (aws_sdk E ''DynamoDB.listTables'' region [])) (\<lambda>result.
          io_bind (io_lift (get (Some result) ''TableNames'')) (\<lambda>tables.
          io_return (Some (object [(''result'', Some (object
            [(''region'', Some region),
             (''tables'', tables)]))])))))
         (\<lambda>error. io_throw (Error (''DynamoDB Error: '' @ message error)))))"

text \<open>The start and the end of the period (lines 652 to 658).\<close>

definition startTime_of :: "env \<Rightarrow> jsval \<Rightarrow> js_error + sdk_value" where
  "startTime_of E t =
     (if truthy t then
        (case startsWith_dash t of
           Inl e \<Rightarrow> Inl (TypeError ''params.startTime.startsWith is not a function'')
         | Inr True \<Rightarrow> parseRelativeTime E t
         | Inr False \<Rightarrow> Inr (new_Date (Date_parse E t)))
      else Inr (new_Date (Some (Date_now E - 3600 * 1000))))"

definition endTime_of :: "env \<Rightarrow> jsval \<Rightarrow> sdk_value" where
  "endTime_of E t =
     (if truthy t then new_Date (Date_parse E t)
      else new_Date (Some (Date_now E)))"

definition aws_cloudwatch_getMetricStatistics :: "env \<Rightarrow> handler" where
  "aws_cloudwatch_getMetricStatistics E params =
     io_bind (handleRegion (Some params)) (\<lambda>region.
     io_seq (new_client E ''CloudWatch'' region) (
     io_bind (io_lift (get (Some params) ''namespace'')) (\<lambda>namespace.
       if \<not> truthy namespace then io_throw (Error ''Namespace is required'')
       else
         io_bind (io_lift (get (Some params) ''metricName'')) (\<lambda>metricName.
           if \<not> truthy metricName then io_throw (Error ''Metric name is required'')
           else
             io_catch
               (io_bind (io_lift (get (Some params) ''startTime'')) (\<lambda>st.
                io_bind (io_lift (startTime_of E st)) (\<lambda>startTime.
                io_bind (io_lift (get (Some params) ''endTime'')) (\<lambda>et.
                io_bind (io_lift (get (Some params) ''dimensions'')) (\<lambda>dimensions.
                io_bind (io_lift (get (Some params) ''period'')) (\<lambda>period.
                io_bind (io_lift (get (Some params) ''statistics'')) (\<lambda>statistics.
                io_bind (io_lift (aws_sdk E ''CloudWatch.getMetricStatistics'' region
                           [(''Namespace'', Plain namespace),
                            (''MetricName'', Plain metricName),
                            (''Dimensions'', Plain (Some (or_else dimensions (JArr [])))),
                            (''StartTime'', startTime),
                            (''EndTime'', endTime_of E et),
                            (''Period'', Plain (Some (or_else period (JNum 300)))),
                            (''Statistics'',
                               Plain (Some (or_else statistics (JArr [JStr ''Average'']))))])) (\<lambda>result.
                io_bind (io_lift (get (Some result) ''Datapoints'')) (\<lambda>datapoints.
                io_bind (io_lift (get (Some result) ''Label'')) (\<lambda>label.
                io_return (Some (object [(''result'', Some (object
                  [(''region'', Some region),
                   (''namespace'', namespace),
                   (''metricName'', metricName),
                   (''datapoints'', datapoints),
                   (''label'', label)]))]))))))))))))
               (\<lambda>error. io_throw (Error (''CloudWatch Error: '' @ message error)))))))"

text \<open>The object \<^verbatim>\<open>toolHandlers\<close> (lines 530 to 684): its own properties.\<close>

definition toolHandlers :: "env \<Rightarrow> (string \<times> handler) list" where
  "toolHandlers E =
     [(''ping'', ping),
      (''aws.ec2.describeInstances'', aws_ec2_describeInstances E),
      (''aws.s3.listBuckets'', aws_s3_listBuckets E),
      (''aws.s3.listObjects'', aws_s3_listObjects E),
      (''aws.lambda.listFunctions'', aws_lambda_listFunctions E),
      (''aws.dynamodb.listTables'', aws_dynamodb_listTables E),
      (''aws.cloudwatch.getMetricStatistics'', aws_cloudwatch_getMetricStatistics E)]"

text \<open>
  \<^verbatim>\<open>toolHandlers[key]\<close>. The table is an object literal, so a key that is not its own is
  looked up in \<^verbatim>\<open>Object.prototype\<close>, whose members are all truthy; what calling one of
  them gives is the environment's \<open>inherited_call\<close>.
\<close>

definition Object_prototype :: "string list" where
  "Object_prototype =
     [''constructor'', ''__defineGetter__'', ''__defineSetter__'', ''hasOwnProperty'',
      ''__lookupGetter__'', ''__lookupSetter__'', ''isPrototypeOf'', ''propertyIsEnumerable'',
      ''toString'', ''valueOf'', ''__proto__'', ''toLocaleString'']"

definition toolHandlers_get :: "env \<Rightarrow> string \<Rightarrow> handler option" where
  "toolHandlers_get E key =
     (case map_of (toolHandlers E) key of
        Some h \<Rightarrow> Some h
      | None \<Rightarrow>
          (if key \<in> set Object_prototype
           then Some (\<lambda>params. io_lift (inherited_call E key params))
           else None))"

section \<open>The line handler\<close>

text \<open>The branch for \<^verbatim>\<open>initialize\<close> (lines 699 to 711).\<close>

definition on_initialize :: "env \<Rightarrow> json \<Rightarrow> unit io" where
  "on_initialize E request =
     io_bind (io_lift (get (Some request) ''id'')) (\<lambda>i.
     io_bind (io_lift (get (Some request) ''params'')) (\<lambda>params.
     io_bind (io_lift (get params ''protocolVersion'')) (\<lambda>protocolVersion.
       sendResponse E i (Some (object
         [(''protocolVersion'', protocolVersion),
          (''capabilities'', Some (object [(''tools'', Some (object []))])),
          (''serverInfo'', Some (object
            [(''name'', Some (JStr ''aws-mcp-server'')),
             (''version'', Some (JStr ''1.0.0''))]))])))))"

text \<open>The branch for \<^verbatim>\<open>tools/list\<close> (lines 714 to 728).\<close>

definition descriptor :: "tool \<Rightarrow> json" where
  "descriptor t =
     object
       [(''name'', Some (JStr (name t))),
        (''description'', Some (JStr (description t))),
        (''inputSchema'', Some (object
          [(''type'', Some (JStr ''object'')),
           (''properties'', Some (or_else (Some (properties (parameters t))) (object []))),
           (''required'', Some (or_else (Some (required (parameters t))) (JArr []))),
           (''additionalProperties'', Some (JBool False))]))]"

definition on_tools_list :: "env \<Rightarrow> json \<Rightarrow> unit io" where
  "on_tools_list E request =
     io_bind (io_lift (get (Some request) ''id'')) (\<lambda>i.
       sendResponse E i (Some (object [(''tools'', Some (JArr (map descriptor tools)))])))"

text \<open>
  The branch for \<^verbatim>\<open>tools/invoke\<close> (lines 731 to 751). \<open>tool_member\<close> is the test
  \<^verbatim>\<open>!toolName || !toolHandlers[toolName]\<close>, with the member it finds.
\<close>

definition tool_member :: "env \<Rightarrow> jsval \<Rightarrow> js_error + handler option" where
  "tool_member E toolName =
     (case toolName of
        None \<Rightarrow> Inr None
      | Some v \<Rightarrow>
          (if \<not> truthy toolName then Inr None
           else (case to_string v of
                   Inl e \<Rightarrow> Inl e
                 | Inr key \<Rightarrow> Inr (toolHandlers_get E key))))"

definition on_tools_invoke :: "env \<Rightarrow> json \<Rightarrow> unit io" where
  "on_tools_invoke E request =
     io_bind (io_lift (get (Some request) ''params'')) (\<lambda>params.
     io_bind (io_lift (opt_get params ''name'')) (\<lambda>toolName.
     io_bind (io_lift (opt_get params ''parameters'')) (\<lambda>supplied.
     io_bind (io_lift (tool_member E toolName)) (\<lambda>member.
       case member of
         None \<Rightarrow>
           io_bind (io_lift (get (Some request) ''id'')) (\<lambda>i.
           io_bind (io_lift (template toolName)) (\<lambda>shown.
             sendErrorResponse E i (- 32601) (''Tool '' @ quoted shown @ '' not found'')))
       | Some h \<Rightarrow>
           io_catch
             (io_bind (h (or_else supplied (object []))) (\<lambda>result.
              io_bind (io_lift (get (Some request) ''id'')) (\<lambda>i.
                sendResponse E i result)))
             (\<lambda>error.
                io_seq (log E (''[aws] [error] Tool execution error: '' @ message error, None))
                  (io_bind (io_lift (get (Some request) ''id'')) (\<lambda>i.
                     sendErrorResponse E i (- 32000)
                       (''Tool execution error: '' @ message error))))))))"

text \<open>The body of the \<^verbatim>\<open>try\<close> after the request is logged (lines 692 to 760).\<close>

definition dispatch :: "env \<Rightarrow> json \<Rightarrow> unit io" where
  "dispatch E request =
     io_bind (io_lift (get (Some request) ''jsonrpc'')) (\<lambda>jsonrpc.
       if jsonrpc \<noteq> Some (JStr ''2.0'') then
         io_bind (io_lift (get (Some request) ''id'')) (\<lambda>i.
           sendErrorResponse E i (- 32600) ''Invalid Request: Not JSON-RPC 2.0'')
       else
         io_bind (io_lift (get (Some request) ''method'')) (\<lambda>method.
           if method = Some (JStr ''initialize'') then on_initialize E request
           else if method = Some (JStr ''tools/list'') then on_tools_list E request
           else if method = Some (JStr ''tools/invoke'') then on_tools_invoke E request
           else if method = Some (JStr ''notifications/initialized'') then io_return ()
           else
             io_bind (io_lift (get (Some request) ''id'')) (\<lambda>i.
               sendErrorResponse E i (- 32601) ''Method not found'')))"

text \<open>
  The listener \<^verbatim>\<open>rl.on('line', ...)\<close> (lines 687 to 765). Its one \<^verbatim>\<open>catch\<close> takes whatever
  the body throws: the SyntaxError of \<^verbatim>\<open>JSON.parse\<close>, a failed append to the log, and any
  TypeError of the dispatch. What the \<^verbatim>\<open>catch\<close> itself throws leaves the listener (\<open>Inl\<close>).
  \<open>on_line\<close> is one call of the listener from the line to its end. The listener is
  \<^verbatim>\<open>async\<close> and nobody awaits it: while a handler waits for AWS the next line can be read,
  so the lines of two requests can be written in another order than the requests came. What
  is stated of \<open>on_line\<close> is about the lines of one request.
\<close>

definition on_line :: "env \<Rightarrow> string \<Rightarrow> unit io" where
  "on_line E line =
     io_catch
       (io_bind (io_lift (JSON_parse E line)) (\<lambda>request.
        io_seq (log E (''[aws] [info] Received request: '', Some request))
          (dispatch E request)))
       (\<lambda>error.
          io_seq (log E (''[aws] [error] Error processing request: '' @ message error, None))
            (sendErrorResponse E (Some JNull) (- 32700) ''Parse error''))"

section \<open>Start of the process\<close>

text \<open>
  What the script does before the first line is read: two lines of log (lines 24 and 793),
  the default region (line 31, when the credentials load) and the notification
  \<^verbatim>\<open>notifications/ready\<close> (lines 795 to 799).
\<close>

definition ready_notification :: json where
  "ready_notification =
     object [(''jsonrpc'', Some (JStr ''2.0'')), (''method'', Some (JStr ''notifications/ready'')),
       (''params'', Some (object []))]"

definition started :: world where
  "started =
     \<lparr>appends = 2,
      log_file = [(''[aws] [info] Initializing server...'', None),
                  (''[aws] [info] Server started and connected successfully'', None)],
      stdout = [ready_notification],
      region = Some (JStr ''us-west-2'')\<rparr>"

section \<open>Notions of the specification\<close>

text \<open>Every append to the log file succeeds.\<close>

definition log_reliable :: "env \<Rightarrow> bool" where
  "log_reliable E \<longleftrightarrow> (\<forall>n. append_fault E n = None)"

text \<open>A computation that writes nothing to standard output.\<close>

definition quiet :: "'a io \<Rightarrow> bool" where
  "quiet m \<longleftrightarrow> (\<forall>w. stdout (snd (m w)) = stdout w)"



definition parse_error :: json where
  "parse_error = error_response (Some JNull) (- 32700) ''Parse error''"


text \<open>
  In a descriptor of \<^verbatim>\<open>tools/list\<close>, every name of \<^verbatim>\<open>inputSchema.required\<close> is a key of
  \<^verbatim>\<open>inputSchema.properties\<close>.
\<close>

fun required_declared :: "json \<Rightarrow> bool" where
  "required_declared (JObj d) =
     (case map_of d ''inputSchema'' of
        Some (JObj s) \<Rightarrow>
          (case (map_of s ''properties'', map_of s ''required'') of
             (Some (JObj props), Some (JArr names)) \<Rightarrow>
               list_all (\<lambda>n. case n of JStr k \<Rightarrow> k \<in> set (map fst props) | _ \<Rightarrow> False) names
           | _ \<Rightarrow> False)
      | _ \<Rightarrow> False)"
| "required_declared _ = False"

text \<open>
  A descriptor as the specification has it: the name, the description and, under
  \<^verbatim>\<open>inputSchema\<close>, the properties and the required names of the catalog entry.
\<close>

definition reshaped :: "tool \<Rightarrow> json" where
  "reshaped t =
     JObj [(''name'', JStr (name t)),
           (''description'', JStr (description t)),
           (''inputSchema'',
            JObj [(''type'', JStr ''object''),
                  (''properties'', properties (parameters t)),
                  (''required'', required (parameters t)),
                  (''additionalProperties'', JBool False)])]"

section \<open>An environment for the examples\<close>

text \<open>
  Lines of input with the documents that \<^verbatim>\<open>JSON.parse\<close> makes of them. The parser of the
  examples knows these lines and takes every other line as malformed.
\<close>

definition documents :: "(string \<times> json) list" where
  \<open>documents =
     [(''null'', JNull),
      (''{"jsonrpc":"2.0","id":1,"method":"initialize"}'',
       JObj [(''jsonrpc'', JStr ''2.0''), (''id'', JNum 1), (''method'', JStr ''initialize'')]),
      (''{"jsonrpc":"2.0","id":2,"method":"tools/invoke","params":{"name":"ping"}}'',
       JObj [(''jsonrpc'', JStr ''2.0''), (''id'', JNum 2), (''method'', JStr ''tools/invoke''),
         (''params'', JObj [(''name'', JStr ''ping'')])]),
      (''{"jsonrpc":"2.0","id":3,"method":"tools/invoke","params":{"name":"aws.ec2.describeVpcs"}}'',
       JObj [(''jsonrpc'', JStr ''2.0''), (''id'', JNum 3), (''method'', JStr ''tools/invoke''),
         (''params'', JObj [(''name'', JStr ''aws.ec2.describeVpcs'')])]),
      (''{"jsonrpc":"2.0","id":4,"method":"tools/invoke","params":{"name":"constructor"}}'',
       JObj [(''jsonrpc'', JStr ''2.0''), (''id'', JNum 4), (''method'', JStr ''tools/invoke''),
         (''params'', JObj [(''name'', JStr ''constructor'')])]),
      (''{"jsonrpc":"2.0","id":5,"method":"notifications/initialized"}'',
       JObj [(''jsonrpc'', JStr ''2.0''), (''id'', JNum 5),
         (''method'', JStr ''notifications/initialized'')]),
      (''{"jsonrpc":"2.0","id":6,"method":"tools/list"}'',
       JObj [(''jsonrpc'', JStr ''2.0''), (''id'', JNum 6), (''method'', JStr ''tools/list'')]),
      (''{"jsonrpc":"2.0","id":7,"method":"tools/invoke","params":{"name":"aws.s3.listObjects"}}'',
       JObj [(''jsonrpc'', JStr ''2.0''), (''id'', JNum 7), (''method'', JStr ''tools/invoke''),
         (''params'', JObj [(''name'', JStr ''aws.s3.listObjects'')])]),
      (''{"jsonrpc":"2.0","method":"foo"}'',
       JObj [(''jsonrpc'', JStr ''2.0''), (''method'', JStr ''foo'')]),
      (''{"jsonrpc":"2.0","method":"notifications/initialized"}'',
       JObj [(''jsonrpc'', JStr ''2.0''), (''method'', JStr ''notifications/initialized'')])]\<close>

text \<open>
  What the members inherited from \<^verbatim>\<open>Object.prototype\<close> give when the handler table calls
  them with the parameter object: the result as \<^verbatim>\<open>JSON.stringify\<close> shows it, or the
  TypeError.
\<close>

definition Object_prototype_call :: "string \<Rightarrow> json \<Rightarrow> js_error + jsval" where
  "Object_prototype_call k p =
     (if k = ''constructor'' then Inr (Some p)
      else if k = ''toString'' \<or> k = ''toLocaleString'' then Inr (Some (JStr ''[object Object]''))
      else if k = ''valueOf'' then Inr (Some (JObj []))
      else if k = ''isPrototypeOf'' then Inr (Some (JBool False))
      else if k = ''hasOwnProperty'' \<or> k = ''propertyIsEnumerable'' then
        (case to_string p of
           Inl e \<Rightarrow> Inl e
         | Inr key \<Rightarrow>
             Inr (Some (JBool (key \<in> set
               [''ping'', ''aws.ec2.describeInstances'', ''aws.s3.listBuckets'',
                ''aws.s3.listObjects'', ''aws.lambda.listFunctions'', ''aws.dynamodb.listTables'',
                ''aws.cloudwatch.getMetricStatistics'']))))
      else if k = ''__lookupGetter__'' \<or> k = ''__lookupSetter__'' then
        (case to_string p of Inl e \<Rightarrow> Inl e | Inr key \<Rightarrow> Inr None)
      else if k = ''__defineGetter__'' then
        Inl (TypeError ''Object.prototype.__defineGetter__: Expecting function'')
      else if k = ''__defineSetter__'' then
        Inl (TypeError ''Object.prototype.__defineSetter__: Expecting function'')
      else Inl (TypeError ''toolHandlers[toolName] is not a function''))"

text \<open>
  A machine whose log file can be written and that holds no AWS credentials; \<open>full_disk\<close> is
  the same machine when the append of index 2, the first after the start, fails, and
  \<open>late_fault\<close> when the append of index 3, the second after the start, fails.
\<close>

definition node :: env where
  "node =
     \<lparr>JSON_parse = (\<lambda>line. case map_of documents line of
                       Some doc \<Rightarrow> Inr doc
                     | None \<Rightarrow> Inl (SyntaxError ''Unexpected end of JSON input'')),
      append_fault = (\<lambda>n. None),
      AWS_client = (\<lambda>service r. case r of
                      JStr s \<Rightarrow> None
                    | _ \<Rightarrow> Some (TypeError ''region.split is not a function'')),
      aws_sdk = (\<lambda>operation r request. Inl (Error ''Missing credentials in config'')),
      inherited_call = Object_prototype_call,
      Date_now = 1700000000000,
      Date_parse = (\<lambda>v. None),
      parseInt = (\<lambda>s. None)\<rparr>"


definition late_fault :: env where
  "late_fault =
     node\<lparr>append_fault :=
       (\<lambda>n. if n = 3 then Some ''ENOSPC: no space left on device, write'' else None)\<rparr>"

section \<open>Handlers write nothing to standard output\<close>

lemma quiet_return: "quiet (io_return x)"
  by (simp add: quiet_def io_return_def)

lemma quiet_throw: "quiet (io_throw e)"
  by (simp add: quiet_def io_throw_def)

lemma quiet_lift: "quiet (io_lift r)"
  by (simp add: quiet_def io_lift_def)

lemma quiet_bind: "quiet m \<Longrightarrow> (\<And>x. quiet (f x)) \<Longrightarrow> quiet (io_bind m f)"
  unfolding quiet_def io_bind_def
proof
  fix w
  assume m: "\<forall>w. stdout (snd (m w)) = stdout w"
    and f: "\<And>x. \<forall>w. stdout (snd (f x w)) = stdout w"
  obtain r w' where mw: "m w = (r, w')" by (cases "m w")
  from m have "stdout (snd (m w)) = stdout w" by blast
  with mw have s: "stdout w' = stdout w" by simp
  show "stdout (snd (case m w of (Inl e, w') \<Rightarrow> (Inl e, w') | (Inr x, w') \<Rightarrow> f x w')) = stdout w"
    using mw s f by (cases r) simp_all
qed

lemma quiet_seq: "quiet m \<Longrightarrow> quiet n \<Longrightarrow> quiet (io_seq m n)"
  by (simp add: io_seq_def quiet_bind)

lemma quiet_catch: "quiet m \<Longrightarrow> (\<And>e. quiet (h e)) \<Longrightarrow> quiet (io_catch m h)"
  unfolding quiet_def io_catch_def
proof
  fix w
  assume m: "\<forall>w. stdout (snd (m w)) = stdout w"
    and h: "\<And>e. \<forall>w. stdout (snd (h e w)) = stdout w"
  obtain r w' where mw: "m w = (r, w')" by (cases "m w")
  from m have "stdout (snd (m w)) = stdout w" by blast
  with mw have s: "stdout w' = stdout w" by simp
  show "stdout (snd (case m w of (Inl e, w') \<Rightarrow> h e w' | (Inr x, w') \<Rightarrow> (Inr x, w'))) = stdout w"
    using mw s h by (cases r) simp_all
qed

lemma quiet_if: "quiet a \<Longrightarrow> quiet b \<Longrightarrow> quiet (if c then a else b)"
  by simp

lemma quiet_update_region: "quiet (AWS_config_update_region r)"
  by (simp add: quiet_def AWS_config_update_region_def)

lemma quiet_region: "quiet AWS_config_region"
  by (simp add: quiet_def AWS_config_region_def)

lemma quiet_new_client: "quiet (new_client E service r)"
  by (simp add: new_client_def quiet_lift)

lemmas quiet_intros =
  quiet_return quiet_throw quiet_lift quiet_bind quiet_seq quiet_catch quiet_if
  quiet_update_region quiet_region quiet_new_client

lemma quiet_handleRegion: "quiet (handleRegion p)"
  unfolding handleRegion_def
  by (intro quiet_intros) (auto split: option.splits intro!: quiet_intros)

lemma quiet_ping: "quiet (ping p)"
  unfolding ping_def by (intro quiet_intros)

lemma quiet_describeInstances: "quiet (aws_ec2_describeInstances E p)"
  unfolding aws_ec2_describeInstances_def by (intro quiet_intros quiet_handleRegion)

lemma quiet_listBuckets: "quiet (aws_s3_listBuckets E p)"
  unfolding aws_s3_listBuckets_def by (intro quiet_intros quiet_handleRegion)

lemma quiet_listObjects: "quiet (aws_s3_listObjects E p)"
  unfolding aws_s3_listObjects_def by (intro quiet_intros quiet_handleRegion)

lemma quiet_listFunctions: "quiet (aws_lambda_listFunctions E p)"
  unfolding aws_lambda_listFunctions_def by (intro quiet_intros quiet_handleRegion)

lemma quiet_listTables: "quiet (aws_dynamodb_listTables E p)"
  unfolding aws_dynamodb_listTables_def by (intro quiet_intros quiet_handleRegion)

lemma quiet_getMetricStatistics: "quiet (aws_cloudwatch_getMetricStatistics E p)"
  unfolding aws_cloudwatch_getMetricStatistics_def by (intro quiet_intros quiet_handleRegion)

lemma quiet_handlers: "map_of (toolHandlers E) key = Some h \<Longrightarrow> quiet (h p)"
  by (auto simp: toolHandlers_def quiet_ping quiet_describeInstances quiet_listBuckets
      quiet_listObjects quiet_listFunctions quiet_listTables quiet_getMetricStatistics
      split: if_splits)


section \<open>The listener when the log can be written\<close>

lemmas io_defs = io_return_def io_throw_def io_lift_def io_bind_def io_seq_def io_catch_def

lemma log_ok:
  "log_reliable E \<Longrightarrow>
   log E l w = (Inr (), w\<lparr>appends := Suc (appends w), log_file := log_file w @ [l]\<rparr>)"
  by (simp add: log_reliable_def log_def)

lemma sendResponse_ok:
  "log_reliable E \<Longrightarrow>
   sendResponse E i r w =
     (Inr (),
      w\<lparr>appends := Suc (appends w),
        log_file := log_file w @ [(''[aws] [info] Sending response: '', Some (response i r))],
        stdout := stdout w @ [response i r]\<rparr>)"
  by (simp add: sendResponse_def io_seq_def io_bind_def log_ok console_log_def)

lemma sendErrorResponse_ok:
  "log_reliable E \<Longrightarrow>
   sendErrorResponse E i c m w =
     (Inr (),
      w\<lparr>appends := Suc (appends w),
        log_file := log_file w @
          [(''[aws] [error] Sending error: '', Some (error_response i c m))],
        stdout := stdout w @ [error_response i c m]\<rparr>)"
  by (simp add: sendErrorResponse_def io_seq_def io_bind_def log_ok console_log_def)




lemma opt_get_never_throws: "\<exists>v. opt_get p k = Inr v"
  by (cases p rule: truthy.cases) auto

lemma tool_member_template:
  "tool_member E toolName = Inr None \<Longrightarrow> \<exists>s. template toolName = Inr s"
  by (cases toolName rule: truthy.cases)
     (auto simp: tool_member_def split: sum.splits if_splits)






text \<open>A line that does not parse is answered with the parse error, once, and the listener
  returns.\<close>

lemma on_line_malformed:
  assumes "log_reliable E" and "JSON_parse E line = Inl e"
  shows "fst (on_line E line w) = Inr () \<and>
         stdout (snd (on_line E line w)) = stdout w @ [parse_error]"
  by (simp add: on_line_def io_defs assms(2) log_ok [OF assms(1)]
      sendErrorResponse_ok [OF assms(1)] parse_error_def)

text \<open>A name that is falsy, or that is neither a handler nor inherited, is not found.\<close>

lemma unknown_tool_not_found:
  assumes "log_reliable E"
    and "JSON_parse E line = Inr request"
    and "get (Some request) ''jsonrpc'' = Inr (Some (JStr ''2.0''))"
    and "get (Some request) ''method'' = Inr (Some (JStr ''tools/invoke''))"
    and "get (Some request) ''id'' = Inr i"
    and "get (Some request) ''params'' = Inr params"
    and "opt_get params ''name'' = Inr toolName"
    and "tool_member E toolName = Inr None"
  shows "\<exists>shown. template toolName = Inr shown \<and>
           fst (on_line E line w) = Inr () \<and>
           stdout (snd (on_line E line w)) =
             stdout w @ [error_response i (- 32601) (''Tool '' @ quoted shown @ '' not found'')]"
proof -
  obtain shown where s: "template toolName = Inr shown"
    using assms(8) tool_member_template by blast
  obtain supplied where a: "opt_get params ''parameters'' = Inr supplied"
    using opt_get_never_throws by blast
  have "on_tools_invoke E request =
      sendErrorResponse E i (- 32601) (''Tool '' @ quoted shown @ '' not found'')"
    by (simp add: on_tools_invoke_def io_bind_def io_lift_def assms(5,6,7,8) a s fun_eq_iff)
  then have "dispatch E request =
      sendErrorResponse E i (- 32601) (''Tool '' @ quoted shown @ '' not found'')"
    by (simp add: dispatch_def io_bind_def io_lift_def assms(3,4) fun_eq_iff)
  then have "fst (on_line E line w) = Inr () \<and>
           stdout (snd (on_line E line w)) =
             stdout w @ [error_response i (- 32601) (''Tool '' @ quoted shown @ '' not found'')]"
    by (simp add: on_line_def io_defs assms(2) log_ok [OF assms(1)]
        sendErrorResponse_ok [OF assms(1)])
  with s show ?thesis by blast
qed

section \<open>The catalog\<close>

lemma catalog_truthy:
  "list_all (\<lambda>t. truthy (Some (properties (parameters t))) \<and>
                  truthy (Some (required (parameters t)))) tools"
  by (simp add: tools_def)

lemma descriptor_reshaped:
  "truthy (Some (properties (parameters t))) \<Longrightarrow> truthy (Some (required (parameters t))) \<Longrightarrow>
   descriptor t = reshaped t"
  by (simp add: descriptor_def reshaped_def object_def)

lemma descriptors_reshaped: "map descriptor tools = map reshaped tools"
  using catalog_truthy by (auto simp: list_all_iff descriptor_reshaped)

lemma catalog_required_declared: "list_all required_declared (map reshaped tools)"
  by (simp add: tools_def reshaped_def)

lemma length_tools: "length tools = 22"
  by (simp add: tools_def)

lemma catalog_names:
  "map name tools =
     [''aws.ec2.describeInstances'', ''aws.ec2.describeVpcs'',
      ''aws.ec2.describeSecurityGroups'', ''aws.s3.listBuckets'', ''aws.s3.listObjects'',
      ''aws.lambda.listFunctions'', ''aws.lambda.getFunctionConfiguration'',
      ''aws.dynamodb.listTables'', ''aws.dynamodb.describeTable'',
      ''aws.cloudwatch.getMetricStatistics'', ''aws.cloudwatch.describeAlarms'',
      ''aws.iam.listUsers'', ''aws.iam.listRoles'', ''aws.rds.describeDBInstances'',
      ''aws.sns.listTopics'', ''aws.sqs.listQueues'', ''aws.cloudformation.listStacks'',
      ''aws.route53.listHostedZones'', ''aws.cloudfront.listDistributions'',
      ''aws.ecs.listClusters'', ''aws.eks.listClusters'', ''ping'']"
  by (simp add: tools_def)

section \<open>The examples\<close>

lemmas run_defs =
  on_line_def dispatch_def on_initialize_def on_tools_list_def on_tools_invoke_def
  tool_member_def toolHandlers_get_def toolHandlers_def log_def console_log_def
  sendResponse_def sendErrorResponse_def response_def error_response_def object_def
  quoted_def cannot_read_def

lemma node_simps:
  "append_fault node = (\<lambda>n. None)"
  "AWS_client node =
     (\<lambda>service r. case r of
        JStr s \<Rightarrow> None
      | _ \<Rightarrow> Some (TypeError ''region.split is not a function''))"
  "inherited_call node = Object_prototype_call"
  "JSON_parse node line =
     (case map_of documents line of
        Some doc \<Rightarrow> Inr doc
      | None \<Rightarrow> Inl (SyntaxError ''Unexpected end of JSON input''))"
  by (simp_all add: node_def)


lemma late_fault_simps:
  "append_fault late_fault =
     (\<lambda>n. if n = 3 then Some ''ENOSPC: no space left on device, write'' else None)"
  "inherited_call late_fault = Object_prototype_call"
  "AWS_client late_fault = AWS_client node"
  "JSON_parse late_fault = JSON_parse node"
  by (simp_all add: late_fault_def node_def)

lemma log_reliable_node: "log_reliable node"
  by (simp add: log_reliable_def node_simps)

lemmas eval_defs =
  node_simps documents_def run_defs io_defs started_def parse_error_def
  Object_prototype_def Object_prototype_call_def ready_notification_def

text \<open>
  The constructor of the client comes before the test of the bucket: with the region 5 and
  no bucket, \<^verbatim>\<open>aws.s3.listObjects\<close> on \<open>node\<close> throws what the constructor throws, after
  \<^verbatim>\<open>handleRegion\<close> has set the region.
\<close>

lemma listObjects_constructor_first:
  "aws_s3_listObjects node (JObj [(''region'', JNum 5)]) started =
     (Inl (TypeError ''region.split is not a function''), started\<lparr>region := Some (JNum 5)\<rparr>)"
  by (simp add: aws_s3_listObjects_def handleRegion_def AWS_config_update_region_def
      new_client_def node_simps io_defs)

section \<open>The claims\<close>

text \<open>
  Claim C1: every tool of the catalog that \<^verbatim>\<open>tools/list\<close> serves has a handler, so that
  invoking a listed tool never gives the failure \<^verbatim>\<open>Tool '<name>' not found\<close>.

  The code does not keep this: the catalog lists 22 tools and \<^verbatim>\<open>toolHandlers\<close> has 7
  handlers. \<^verbatim>\<open>aws.ec2.describeVpcs\<close> is listed, has no handler, and its invocation is answered
  with the failure; fifteen listed names have no handler.
\<close>

theorem listed_tool_without_handler:
  \<open>''aws.ec2.describeVpcs'' \<in> set (map name tools) \<and>
   map_of (toolHandlers node) ''aws.ec2.describeVpcs'' = None \<and>
   stdout (snd (on_line node
     ''{"jsonrpc":"2.0","id":3,"method":"tools/invoke","params":{"name":"aws.ec2.describeVpcs"}}''
     started)) =
     stdout started @
       [error_response (Some (JNum 3)) (- 32601)
          (''Tool '' @ quoted ''aws.ec2.describeVpcs'' @ '' not found'')] \<and>
   [n \<leftarrow> map name tools. map_of (toolHandlers node) n = None] =
     [''aws.ec2.describeVpcs'', ''aws.ec2.describeSecurityGroups'',
      ''aws.lambda.getFunctionConfiguration'', ''aws.dynamodb.describeTable'',
      ''aws.cloudwatch.describeAlarms'', ''aws.iam.listUsers'', ''aws.iam.listRoles'',
      ''aws.rds.describeDBInstances'', ''aws.sns.listTopics'', ''aws.sqs.listQueues'',
      ''aws.cloudformation.listStacks'', ''aws.route53.listHostedZones'',
      ''aws.cloudfront.listDistributions'', ''aws.ecs.listClusters'', ''aws.eks.listClusters'']\<close>
proof -
  have a: "''aws.ec2.describeVpcs'' \<in> set (map name tools)"
    by (simp add: catalog_names)
  have b: "map_of (toolHandlers node) ''aws.ec2.describeVpcs'' = None"
    by (simp add: toolHandlers_def)
  have c: \<open>stdout (snd (on_line node
     ''{"jsonrpc":"2.0","id":3,"method":"tools/invoke","params":{"name":"aws.ec2.describeVpcs"}}''
     started)) =
     stdout started @
       [error_response (Some (JNum 3)) (- 32601)
          (''Tool '' @ quoted ''aws.ec2.describeVpcs'' @ '' not found'')]\<close>
    by (simp add: eval_defs)
  have d: "[n \<leftarrow> map name tools. map_of (toolHandlers node) n = None] =
     [''aws.ec2.describeVpcs'', ''aws.ec2.describeSecurityGroups'',
      ''aws.lambda.getFunctionConfiguration'', ''aws.dynamodb.describeTable'',
      ''aws.cloudwatch.describeAlarms'', ''aws.iam.listUsers'', ''aws.iam.listRoles'',
      ''aws.rds.describeDBInstances'', ''aws.sns.listTopics'', ''aws.sqs.listQueues'',
      ''aws.cloudformation.listStacks'', ''aws.route53.listHostedZones'',
      ''aws.cloudfront.listDistributions'', ''aws.ecs.listClusters'', ''aws.eks.listClusters'']"
    unfolding catalog_names by (simp add: toolHandlers_def)
  show ?thesis using a b c d by blast
qed




text \<open>
  Claim C3: an exception raised while a well-formed request is dispatched gives a failure
  with the internal-error code and the id of the request, never the parse-error code
  \<^verbatim>\<open>-32700\<close> or a null id.

  The code does not keep this: the one \<^verbatim>\<open>catch\<close> of the listener answers every exception
  with the parse error. The well-formed request \<^verbatim>\<open>{"jsonrpc":"2.0","id":1,"method":"initialize"}\<close>
  has no \<^verbatim>\<open>params\<close>, reading \<^verbatim>\<open>request.params.protocolVersion\<close> throws, and the answer has
  the code \<^verbatim>\<open>-32700\<close> and the id \<^verbatim>\<open>null\<close>.
\<close>

theorem initialize_without_params_is_parse_error:
  \<open>JSON_parse node ''{"jsonrpc":"2.0","id":1,"method":"initialize"}'' =
     Inr (JObj [(''jsonrpc'', JStr ''2.0''), (''id'', JNum 1), (''method'', JStr ''initialize'')]) \<and>
   stdout (snd (on_line node ''{"jsonrpc":"2.0","id":1,"method":"initialize"}'' started)) =
     stdout started @
       [JObj [(''jsonrpc'', JStr ''2.0''), (''id'', JNull),
              (''error'', JObj [(''code'', JNum (- 32700)),
                                (''message'', JStr ''Parse error'')])]]\<close>
  by (simp add: eval_defs)

text \<open>
  Claim C4: the server emits the parse error if and only if the line is not well-formed
  JSON, and then once, going on with the next line.

  The code does not keep the "only if": the line \<^verbatim>\<open>null\<close> is well-formed JSON, reading
  \<^verbatim>\<open>request.jsonrpc\<close> of it throws, and the same \<^verbatim>\<open>catch\<close> answers with the parse error.
  (That a malformed line is answered with one parse error is \<open>on_line_malformed\<close>.)
\<close>

theorem null_document_is_parse_error:
  \<open>JSON_parse node ''null'' = Inr JNull \<and>
   fst (on_line node ''null'' started) = Inr () \<and>
   stdout (snd (on_line node ''null'' started)) =
     stdout started @
       [JObj [(''jsonrpc'', JStr ''2.0''), (''id'', JNull),
              (''error'', JObj [(''code'', JNum (- 32700)),
                                (''message'', JStr ''Parse error'')])]]\<close>
  by (simp add: eval_defs)




text \<open>
  Claim C6: a \<^verbatim>\<open>tools/invoke\<close> whose name is missing or names no registered handler is
  answered with the failure \<^verbatim>\<open>Tool '<name>' not found\<close> and runs no handler; otherwise the
  named handler is called with \<^verbatim>\<open>params.parameters\<close>, or with the empty object.

  The code does not keep this for the names that \<^verbatim>\<open>toolHandlers\<close> inherits from
  \<^verbatim>\<open>Object.prototype\<close>: \<^verbatim>\<open>constructor\<close> is no handler, \<^verbatim>\<open>toolHandlers["constructor"]\<close> is
  truthy all the same, it is called, and the request is answered with a result. (For the
  other names the claim holds: \<open>unknown_tool_not_found\<close>.)
\<close>

theorem inherited_name_is_invoked:
  \<open>map_of (toolHandlers node) ''constructor'' = None \<and>
   stdout (snd (on_line node
     ''{"jsonrpc":"2.0","id":4,"method":"tools/invoke","params":{"name":"constructor"}}''
     started)) =
     stdout started @
       [JObj [(''jsonrpc'', JStr ''2.0''), (''id'', JNum 4), (''result'', JObj [])]]\<close>
  by (simp add: eval_defs)

text \<open>
  Claim C7: when a registered handler is invoked and returns, its value is the result of
  the response; when it throws with the message \<open>m\<close>, the response is the failure with the
  code \<^verbatim>\<open>-32000\<close> and the message \<^verbatim>\<open>Tool execution error: m\<close>; and in no case does the
  fault of a handler go past the invocation.

  The claim fails when the log cannot be written: on the machine \<open>late_fault\<close> the handler
  \<^verbatim>\<open>aws.s3.listObjects\<close>, invoked without a bucket, throws \<^verbatim>\<open>Bucket name is required\<close>, the
  \<^verbatim>\<open>log\<close> of line 746 in the \<^verbatim>\<open>catch\<close> of the invocation throws, and the request is
  answered by the \<^verbatim>\<open>catch\<close> of the listener, with the code \<^verbatim>\<open>-32700\<close> and a null id.
\<close>

theorem handler_throw_lost_on_log_fault:
  \<open>map_of (toolHandlers late_fault) ''aws.s3.listObjects'' = Some (aws_s3_listObjects late_fault) \<and>
   fst (aws_s3_listObjects late_fault (JObj [])
     (started\<lparr>appends := 3,
        log_file := log_file started @
          [(''[aws] [info] Received request: '',
            Some (JObj [(''jsonrpc'', JStr ''2.0''), (''id'', JNum 7),
                        (''method'', JStr ''tools/invoke''),
                        (''params'', JObj [(''name'', JStr ''aws.s3.listObjects'')])]))]\<rparr>)) =
     Inl (Error ''Bucket name is required'') \<and>
   append_fault late_fault 3 = Some ''ENOSPC: no space left on device, write'' \<and>
   stdout (snd (on_line late_fault
     ''{"jsonrpc":"2.0","id":7,"method":"tools/invoke","params":{"name":"aws.s3.listObjects"}}''
     started)) =
     stdout started @
       [JObj [(''jsonrpc'', JStr ''2.0''), (''id'', JNull),
              (''error'', JObj [(''code'', JNum (- 32700)),
                                (''message'', JStr ''Parse error'')])]]\<close>
  by (simp add: eval_defs late_fault_simps aws_s3_listObjects_def handleRegion_def
      AWS_config_region_def new_client_def)

text \<open>
  Claim C7, amended: when the log can be written, and a registered handler is invoked: if
  the handler returns, the one line written is the response with the id of the request and
  the value of the handler as its result; if the handler throws with the message \<open>m\<close>, the
  one line written is the failure with the id of the request, the code \<^verbatim>\<open>-32000\<close> and the
  message \<^verbatim>\<open>Tool execution error: m\<close>; in both cases the listener returns, and its own
  \<^verbatim>\<open>catch\<close> is not taken.
\<close>

theorem handler_outcome_wrapped:
  assumes "log_reliable E"
    and "JSON_parse E line = Inr request"
    and "get (Some request) ''jsonrpc'' = Inr (Some (JStr ''2.0''))"
    and "get (Some request) ''method'' = Inr (Some (JStr ''tools/invoke''))"
    and "get (Some request) ''id'' = Inr i"
    and "get (Some request) ''params'' = Inr params"
    and "opt_get params ''name'' = Inr (Some toolName)"
    and "truthy (Some toolName)"
    and "to_string toolName = Inr key"
    and "map_of (toolHandlers E) key = Some h"
    and "opt_get params ''parameters'' = Inr supplied"
    and "h (or_else supplied (object []))
           (w\<lparr>appends := Suc (appends w),
              log_file := log_file w @ [(''[aws] [info] Received request: '', Some request)]\<rparr>) =
         (outcome, w1)"
  shows "fst (on_line E line w) = Inr () \<and>
         stdout (snd (on_line E line w)) =
           stdout w @
             [case outcome of
                Inr result \<Rightarrow>
                  JObj ((''jsonrpc'', JStr ''2.0'') #
                        (case i of None \<Rightarrow> [] | Some v \<Rightarrow> [(''id'', v)]) @
                        (case result of None \<Rightarrow> [] | Some r \<Rightarrow> [(''result'', r)]))
              | Inl e \<Rightarrow>
                  JObj ((''jsonrpc'', JStr ''2.0'') #
                        (case i of None \<Rightarrow> [] | Some v \<Rightarrow> [(''id'', v)]) @
                        [(''error'',
                          JObj [(''code'', JNum (- 32000)),
                                (''message'', JStr (''Tool execution error: '' @ message e))])])]"
proof -
  define w0 where "w0 = w\<lparr>appends := Suc (appends w),
     log_file := log_file w @ [(''[aws] [info] Received request: '', Some request)]\<rparr>"
  have h: "h (or_else supplied (object [])) w0 = (outcome, w1)"
    using assms(12) by (simp add: w0_def)
  have "quiet (h (or_else supplied (object [])))"
    using assms(10) by (rule quiet_handlers)
  then have "stdout (snd (h (or_else supplied (object [])) w0)) = stdout w0"
    by (simp add: quiet_def)
  then have "stdout w1 = stdout w0" by (simp add: h)
  then have s1: "stdout w1 = stdout w" by (simp add: w0_def)
  have m: "tool_member E (Some toolName) = Inr (Some h)"
    using assms(8) by (simp add: tool_member_def assms(9) toolHandlers_get_def assms(10))
  obtain u w2 where inv: "on_tools_invoke E request w0 = (u, w2)"
    by (cases "on_tools_invoke E request w0")
  have res: "u = Inr () \<and>
      stdout w2 = stdout w1 @
        [case outcome of
           Inr result \<Rightarrow> response i result
         | Inl e \<Rightarrow> error_response i (- 32000) (''Tool execution error: '' @ message e)]"
    using inv
    by (cases outcome)
       (auto simp add: on_tools_invoke_def io_bind_def io_lift_def io_catch_def io_seq_def
         assms(5,6,7,11) m h sendResponse_ok [OF assms(1)] sendErrorResponse_ok [OF assms(1)]
         log_ok [OF assms(1)])
  have d: "dispatch E request w0 = on_tools_invoke E request w0"
    by (simp add: dispatch_def io_bind_def io_lift_def assms(3,4))
  have body: "io_bind (io_lift (JSON_parse E line)) (\<lambda>request.
        io_seq (log E (''[aws] [info] Received request: '', Some request))
          (dispatch E request)) w = on_tools_invoke E request w0"
    by (simp add: io_bind_def io_lift_def io_seq_def assms(2) log_ok [OF assms(1)]
        d [unfolded w0_def] w0_def)
  have "fst (on_line E line w) = Inr () \<and>
      stdout (snd (on_line E line w)) = stdout w @
        [case outcome of
           Inr result \<Rightarrow> response i result
         | Inl e \<Rightarrow> error_response i (- 32000) (''Tool execution error: '' @ message e)]"
    unfolding on_line_def io_catch_def body inv using res by (simp add: s1)
  then show ?thesis
    by (cases outcome; cases i)
       (simp_all add: response_def error_response_def object_def split: option.splits)
qed

text \<open>
  Claim C7, amended, at \<^verbatim>\<open>aws.s3.listObjects\<close> invoked without parameters on the machine
  \<open>node\<close>: the handler throws \<^verbatim>\<open>Bucket name is required\<close>, and the line written is the
  failure with the id 7, the code \<^verbatim>\<open>-32000\<close> and the message
  \<^verbatim>\<open>Tool execution error: Bucket name is required\<close>.
\<close>

theorem handler_outcome_wrapped_witness:
  \<open>log_reliable node \<and>
   JSON_parse node
     ''{"jsonrpc":"2.0","id":7,"method":"tools/invoke","params":{"name":"aws.s3.listObjects"}}'' =
     Inr (JObj [(''jsonrpc'', JStr ''2.0''), (''id'', JNum 7), (''method'', JStr ''tools/invoke''),
                (''params'', JObj [(''name'', JStr ''aws.s3.listObjects'')])]) \<and>
   map_of (toolHandlers node) ''aws.s3.listObjects'' = Some (aws_s3_listObjects node) \<and>
   fst (aws_s3_listObjects node (JObj [])
     (started\<lparr>appends := Suc (appends started),
        log_file := log_file started @
          [(''[aws] [info] Received request: '',
            Some (JObj [(''jsonrpc'', JStr ''2.0''), (''id'', JNum 7),
                        (''method'', JStr ''tools/invoke''),
                        (''params'', JObj [(''name'', JStr ''aws.s3.listObjects'')])]))]\<rparr>)) =
     Inl (Error ''Bucket name is required'') \<and>
   fst (on_line node
     ''{"jsonrpc":"2.0","id":7,"method":"tools/invoke","params":{"name":"aws.s3.listObjects"}}''
     started) = Inr () \<and>
   stdout (snd (on_line node
     ''{"jsonrpc":"2.0","id":7,"method":"tools/invoke","params":{"name":"aws.s3.listObjects"}}''
     started)) =
     stdout started @
       [JObj [(''jsonrpc'', JStr ''2.0''), (''id'', JNum 7),
              (''error'',
               JObj [(''code'', JNum (- 32000)),
                     (''message'', JStr ''Tool execution error: Bucket name is required'')])]]\<close>
proof -
  let ?r = "JObj [(''jsonrpc'', JStr ''2.0''), (''id'', JNum 7), (''method'', JStr ''tools/invoke''),
                (''params'', JObj [(''name'', JStr ''aws.s3.listObjects'')])]"
  let ?w = "started\<lparr>appends := Suc (appends started),
        log_file := log_file started @ [(''[aws] [info] Received request: '', Some ?r)]\<rparr>"
  have p: \<open>JSON_parse node
     ''{"jsonrpc":"2.0","id":7,"method":"tools/invoke","params":{"name":"aws.s3.listObjects"}}'' =
     Inr ?r\<close>
    by (simp add: node_simps documents_def)
  have v: "get (Some ?r) ''jsonrpc'' = Inr (Some (JStr ''2.0''))" by simp
  have m: "get (Some ?r) ''method'' = Inr (Some (JStr ''tools/invoke''))" by simp
  have i: "get (Some ?r) ''id'' = Inr (Some (JNum 7))" by simp
  have ps: "get (Some ?r) ''params'' = Inr (Some (JObj [(''name'', JStr ''aws.s3.listObjects'')]))"
    by simp
  have n: "opt_get (Some (JObj [(''name'', JStr ''aws.s3.listObjects'')])) ''name'' =
      Inr (Some (JStr ''aws.s3.listObjects''))" by simp
  have t: "truthy (Some (JStr ''aws.s3.listObjects''))" by simp
  have k: "to_string (JStr ''aws.s3.listObjects'') = Inr ''aws.s3.listObjects''" by simp
  have h: "map_of (toolHandlers node) ''aws.s3.listObjects'' = Some (aws_s3_listObjects node)"
    by (simp add: toolHandlers_def)
  have a: "opt_get (Some (JObj [(''name'', JStr ''aws.s3.listObjects'')])) ''parameters'' = Inr None"
    by simp
  have run: "aws_s3_listObjects node (or_else None (object [])) ?w =
      (Inl (Error ''Bucket name is required''), ?w)"
    by (simp add: aws_s3_listObjects_def handleRegion_def AWS_config_region_def new_client_def
        node_simps io_defs object_def started_def)
  have out: \<open>stdout (snd (on_line node
     ''{"jsonrpc":"2.0","id":7,"method":"tools/invoke","params":{"name":"aws.s3.listObjects"}}''
     started)) =
     stdout started @
       [JObj [(''jsonrpc'', JStr ''2.0''), (''id'', JNum 7),
              (''error'',
               JObj [(''code'', JNum (- 32000)),
                     (''message'', JStr ''Tool execution error: Bucket name is required'')])]]\<close>
    by (simp add: eval_defs aws_s3_listObjects_def handleRegion_def AWS_config_region_def
        new_client_def)
  show ?thesis
    using handler_outcome_wrapped [OF log_reliable_node p v m i ps n t k h a run]
      log_reliable_node p h run out
    by (simp add: object_def)
qed

text \<open>
  Claim C8: the response to every \<^verbatim>\<open>tools/list\<close> request holds one descriptor for each
  entry of the catalog, in the order of the catalog, each of the shape
  \<^verbatim>\<open>{name, description, inputSchema: {type: "object", properties, required,
  additionalProperties: false}}\<close>, and in each descriptor the required names are keys of the
  properties.

  The claim fails when the log cannot be written: on the machine \<open>late_fault\<close> the \<^verbatim>\<open>log\<close>
  in \<^verbatim>\<open>sendResponse\<close> throws before the response is written, and the line written for the
  \<^verbatim>\<open>tools/list\<close> request holds no descriptor.
\<close>

theorem tools_list_lost_on_log_fault:
  \<open>JSON_parse late_fault ''{"jsonrpc":"2.0","id":6,"method":"tools/list"}'' =
     Inr (JObj [(''jsonrpc'', JStr ''2.0''), (''id'', JNum 6), (''method'', JStr ''tools/list'')]) \<and>
   append_fault late_fault 3 = Some ''ENOSPC: no space left on device, write'' \<and>
   stdout (snd (on_line late_fault ''{"jsonrpc":"2.0","id":6,"method":"tools/list"}'' started)) =
     stdout started @
       [JObj [(''jsonrpc'', JStr ''2.0''), (''id'', JNull),
              (''error'', JObj [(''code'', JNum (- 32700)),
                                (''message'', JStr ''Parse error'')])]]\<close>
  by (simp add: eval_defs late_fault_simps)

text \<open>
  Claim C8, amended: when the log can be written, the one line written for a \<^verbatim>\<open>tools/list\<close>
  request is the response with the id of the request whose result is \<^verbatim>\<open>{tools: [...]}\<close>,
  the array holding, for the 22 entries of the catalog and in their order, the descriptor
  \<^verbatim>\<open>{name, description, inputSchema: {type: "object", properties, required,
  additionalProperties: false}}\<close> of the entry (\<open>reshaped\<close>); in each descriptor the required
  names are keys of the properties.
\<close>

theorem tools_list_response:
  assumes "log_reliable E"
    and "JSON_parse E line = Inr request"
    and "get (Some request) ''jsonrpc'' = Inr (Some (JStr ''2.0''))"
    and "get (Some request) ''method'' = Inr (Some (JStr ''tools/list''))"
    and "get (Some request) ''id'' = Inr i"
  shows "fst (on_line E line w) = Inr () \<and>
         stdout (snd (on_line E line w)) =
           stdout w @
             [JObj ((''jsonrpc'', JStr ''2.0'') #
                    (case i of None \<Rightarrow> [] | Some v \<Rightarrow> [(''id'', v)]) @
                    [(''result'', JObj [(''tools'', JArr (map reshaped tools))])])] \<and>
         length (map reshaped tools) = 22 \<and>
         list_all required_declared (map reshaped tools)"
proof -
  have "on_tools_list E request =
      sendResponse E i (Some (JObj [(''tools'', JArr (map reshaped tools))]))"
    by (simp add: on_tools_list_def io_bind_def io_lift_def assms(5) descriptors_reshaped
        object_def fun_eq_iff)
  then have "dispatch E request =
      sendResponse E i (Some (JObj [(''tools'', JArr (map reshaped tools))]))"
    by (simp add: dispatch_def io_bind_def io_lift_def assms(3,4) fun_eq_iff)
  then show ?thesis
    by (cases i)
       (simp_all add: on_line_def io_defs assms(2) log_ok [OF assms(1)]
         sendResponse_ok [OF assms(1)] catalog_required_declared length_tools
         response_def object_def)
qed

text \<open>
  Claim C8, amended, at a \<^verbatim>\<open>tools/list\<close> request with the id 6 on the machine \<open>node\<close>,
  with the descriptors of \<^verbatim>\<open>aws.s3.listObjects\<close> (the fifth) and of \<^verbatim>\<open>ping\<close> (the last).
\<close>

theorem tools_list_response_witness:
  \<open>log_reliable node \<and>
   JSON_parse node ''{"jsonrpc":"2.0","id":6,"method":"tools/list"}'' =
     Inr (JObj [(''jsonrpc'', JStr ''2.0''), (''id'', JNum 6), (''method'', JStr ''tools/list'')]) \<and>
   fst (on_line node ''{"jsonrpc":"2.0","id":6,"method":"tools/list"}'' started) = Inr () \<and>
   stdout (snd (on_line node ''{"jsonrpc":"2.0","id":6,"method":"tools/list"}'' started)) =
     stdout started @
       [JObj [(''jsonrpc'', JStr ''2.0''), (''id'', JNum 6),
              (''result'', JObj [(''tools'', JArr (map reshaped tools))])]] \<and>
   length (map reshaped tools) = 22 \<and>
   list_all required_declared (map reshaped tools) \<and>
   map reshaped tools ! 4 =
     JObj [(''name'', JStr ''aws.s3.listObjects''),
           (''description'', JStr ''List objects in an S3 bucket''),
           (''inputSchema'',
            JObj [(''type'', JStr ''object''),
                  (''properties'',
                   JObj [(''region'',
                          JObj [(''type'', JStr ''string''),
                                (''description'', JStr ''AWS region (e.g., us-west-2)'')]),
                         (''bucket'',
                          JObj [(''type'', JStr ''string''),
                                (''description'', JStr ''S3 bucket name'')]),
                         (''prefix'',
                          JObj [(''type'', JStr ''string''),
                                (''description'', JStr ''Optional prefix to filter objects'')])]),
                  (''required'', JArr [JStr ''bucket'']),
                  (''additionalProperties'', JBool False)])] \<and>
   map reshaped tools ! 21 =
     JObj [(''name'', JStr ''ping''),
           (''description'', JStr ''Responds with pong''),
           (''inputSchema'',
            JObj [(''type'', JStr ''object''),
                  (''properties'', JObj []),
                  (''required'', JArr []),
                  (''additionalProperties'', JBool False)])]\<close>
proof -
  let ?r = "JObj [(''jsonrpc'', JStr ''2.0''), (''id'', JNum 6), (''method'', JStr ''tools/list'')]"
  have p: \<open>JSON_parse node ''{"jsonrpc":"2.0","id":6,"method":"tools/list"}'' = Inr ?r\<close>
    by (simp add: node_simps documents_def)
  have v: "get (Some ?r) ''jsonrpc'' = Inr (Some (JStr ''2.0''))" by simp
  have m: "get (Some ?r) ''method'' = Inr (Some (JStr ''tools/list''))" by simp
  have i: "get (Some ?r) ''id'' = Inr (Some (JNum 6))" by simp
  have d4: "map reshaped tools ! 4 =
     JObj [(''name'', JStr ''aws.s3.listObjects''),
           (''description'', JStr ''List objects in an S3 bucket''),
           (''inputSchema'',
            JObj [(''type'', JStr ''object''),
                  (''properties'',
                   JObj [(''region'',
                          JObj [(''type'', JStr ''string''),
                                (''description'', JStr ''AWS region (e.g., us-west-2)'')]),
                         (''bucket'',
                          JObj [(''type'', JStr ''string''),
                                (''description'', JStr ''S3 bucket name'')]),
                         (''prefix'',
                          JObj [(''type'', JStr ''string''),
                                (''description'', JStr ''Optional prefix to filter objects'')])]),
                  (''required'', JArr [JStr ''bucket'']),
                  (''additionalProperties'', JBool False)])]"
    by (simp add: tools_def reshaped_def)
  have d21: "map reshaped tools ! 21 =
     JObj [(''name'', JStr ''ping''),
           (''description'', JStr ''Responds with pong''),
           (''inputSchema'',
            JObj [(''type'', JStr ''object''),
                  (''properties'', JObj []),
                  (''required'', JArr []),
                  (''additionalProperties'', JBool False)])]"
    by (simp add: tools_def reshaped_def)
  have out: \<open>stdout (snd (on_line node ''{"jsonrpc":"2.0","id":6,"method":"tools/list"}'' started)) =
     stdout started @
       [JObj [(''jsonrpc'', JStr ''2.0''), (''id'', JNum 6),
              (''result'', JObj [(''tools'', JArr (map reshaped tools))])]]\<close>
    by (simp add: on_line_def dispatch_def on_tools_list_def sendResponse_def console_log_def
        log_def response_def object_def io_defs node_simps documents_def descriptors_reshaped)
  show ?thesis
    using tools_list_response [OF log_reliable_node p v m i, of started] log_reliable_node p
      d4 d21 out
    by simp
qed

text \<open>
  Claim C9: every invocation of \<^verbatim>\<open>ping\<close>, with any parameters, any number of times and in
  any order with other invocations, gives the same response, with the result
  \<^verbatim>\<open>{"result":"pong"}\<close>, and changes no observable state.

  The claim fails when the log cannot be written: on the machine \<open>late_fault\<close> the \<^verbatim>\<open>log\<close>
  in \<^verbatim>\<open>sendResponse\<close> throws inside the \<^verbatim>\<open>try\<close> of the invocation, and the \<^verbatim>\<open>ping\<close> is
  answered with the failure \<^verbatim>\<open>-32000\<close>, not with \<^verbatim>\<open>pong\<close>.
\<close>

theorem ping_answered_with_error:
  \<open>JSON_parse late_fault
     ''{"jsonrpc":"2.0","id":2,"method":"tools/invoke","params":{"name":"ping"}}'' =
     Inr (JObj [(''jsonrpc'', JStr ''2.0''), (''id'', JNum 2), (''method'', JStr ''tools/invoke''),
         (''params'', JObj [(''name'', JStr ''ping'')])]) \<and>
   append_fault late_fault 3 = Some ''ENOSPC: no space left on device, write'' \<and>
   stdout (snd (on_line late_fault
     ''{"jsonrpc":"2.0","id":2,"method":"tools/invoke","params":{"name":"ping"}}'' started)) =
     stdout started @
       [JObj [(''jsonrpc'', JStr ''2.0''), (''id'', JNum 2),
              (''error'',
               JObj [(''code'', JNum (- 32000)),
                     (''message'',
                      JStr ''Tool execution error: ENOSPC: no space left on device, write'')])]]\<close>
  by (simp add: eval_defs late_fault_simps ping_def)

text \<open>
  Claim C9, amended: when the log can be written, every invocation of \<^verbatim>\<open>ping\<close>, with any
  parameters and in any state of the process (so any number of times, and in any order with
  other invocations), writes one line, the response with the id of the request and the
  result \<^verbatim>\<open>{"result":"pong"}\<close>, and leaves the state of the process as it was but for that
  line and the two lines of the log: the region is untouched.
\<close>

theorem ping_always_pong:
  assumes "log_reliable E"
    and "JSON_parse E line = Inr request"
    and "get (Some request) ''jsonrpc'' = Inr (Some (JStr ''2.0''))"
    and "get (Some request) ''method'' = Inr (Some (JStr ''tools/invoke''))"
    and "get (Some request) ''id'' = Inr i"
    and "get (Some request) ''params'' = Inr params"
    and "opt_get params ''name'' = Inr (Some (JStr ''ping''))"
  shows "(let pong =
            JObj ((''jsonrpc'', JStr ''2.0'') #
                  (case i of None \<Rightarrow> [] | Some v \<Rightarrow> [(''id'', v)]) @
                  [(''result'', JObj [(''result'', JStr ''pong'')])])
          in on_line E line w =
               (Inr (),
                w\<lparr>appends := appends w + 2,
                  log_file := log_file w @
                    [(''[aws] [info] Received request: '', Some request),
                     (''[aws] [info] Sending response: '', Some pong)],
                  stdout := stdout w @ [pong]\<rparr>))"
proof -
  obtain supplied where ps: "opt_get params ''parameters'' = Inr supplied"
    using opt_get_never_throws by blast
  have "on_tools_invoke E request = sendResponse E i (Some (JObj [(''result'', JStr ''pong'')]))"
    by (simp add: on_tools_invoke_def io_defs assms(5,6,7) ps tool_member_def toolHandlers_get_def
        toolHandlers_def ping_def object_def fun_eq_iff sendResponse_ok [OF assms(1)])
  then have "dispatch E request = sendResponse E i (Some (JObj [(''result'', JStr ''pong'')]))"
    by (simp add: dispatch_def io_bind_def io_lift_def assms(3,4) fun_eq_iff)
  then show ?thesis
    by (cases i)
       (simp_all add: on_line_def io_defs assms(2) log_ok [OF assms(1)]
         sendResponse_ok [OF assms(1)] response_def object_def Let_def)
qed

text \<open>Claim C9, amended, at the request of the specification's example, with the id 2, on
  the machine \<open>node\<close>.\<close>

theorem ping_always_pong_witness:
  \<open>log_reliable node \<and>
   JSON_parse node ''{"jsonrpc":"2.0","id":2,"method":"tools/invoke","params":{"name":"ping"}}'' =
     Inr (JObj [(''jsonrpc'', JStr ''2.0''), (''id'', JNum 2), (''method'', JStr ''tools/invoke''),
         (''params'', JObj [(''name'', JStr ''ping'')])]) \<and>
   stdout (snd (on_line node
     ''{"jsonrpc":"2.0","id":2,"method":"tools/invoke","params":{"name":"ping"}}'' started)) =
     [ready_notification,
      JObj [(''jsonrpc'', JStr ''2.0''), (''id'', JNum 2),
            (''result'', JObj [(''result'', JStr ''pong'')])]] \<and>
   region (snd (on_line node
     ''{"jsonrpc":"2.0","id":2,"method":"tools/invoke","params":{"name":"ping"}}'' started)) =
     region started\<close>
proof -
  let ?r = "JObj [(''jsonrpc'', JStr ''2.0''), (''id'', JNum 2), (''method'', JStr ''tools/invoke''),
         (''params'', JObj [(''name'', JStr ''ping'')])]"
  have p: \<open>JSON_parse node
      ''{"jsonrpc":"2.0","id":2,"method":"tools/invoke","params":{"name":"ping"}}'' = Inr ?r\<close>
    by (simp add: node_simps documents_def)
  have v: "get (Some ?r) ''jsonrpc'' = Inr (Some (JStr ''2.0''))" by simp
  have m: "get (Some ?r) ''method'' = Inr (Some (JStr ''tools/invoke''))" by simp
  have i: "get (Some ?r) ''id'' = Inr (Some (JNum 2))" by simp
  have ps: "get (Some ?r) ''params'' = Inr (Some (JObj [(''name'', JStr ''ping'')]))" by simp
  have n: "opt_get (Some (JObj [(''name'', JStr ''ping'')])) ''name'' = Inr (Some (JStr ''ping''))"
    by simp
  have out: \<open>stdout (snd (on_line node
     ''{"jsonrpc":"2.0","id":2,"method":"tools/invoke","params":{"name":"ping"}}'' started)) =
     [ready_notification,
      JObj [(''jsonrpc'', JStr ''2.0''), (''id'', JNum 2),
            (''result'', JObj [(''result'', JStr ''pong'')])]]\<close>
    by (simp add: eval_defs ping_def started_def)
  show ?thesis
    using ping_always_pong [OF log_reliable_node p v m i ps n, of started] log_reliable_node p
      out
    by (simp add: started_def Let_def)
qed




end
